theory Spec2Isabelle
  imports Main "HOL-Library.AList"
begin

section \<open>Python values and errors\<close>

text \<open>
  The tool is Python 2 code running inside Maya. Every exception the source raises, and every
  exception the Python runtime raises on the source's own expressions (iterating over
  \<^verbatim>\<open>None\<close>, indexing an empty list), is a value of \<open>error\<close>. The host may raise any of them.
\<close>

datatype error =
    AssertionError string
  | ValueError string
  | RuntimeError string
  | TypeError
  | IndexError
  | OtherError string

definition digit_char :: "nat \<Rightarrow> char" where
  "digit_char n = ''0123456789'' ! (n mod 10)"

text \<open>\<^verbatim>\<open>"%i" % n\<close> and \<^verbatim>\<open>"{:d}".format(n)\<close> for a non-negative integer.\<close>

fun py_decimal :: "nat \<Rightarrow> string" where
  "py_decimal n = (if n < 10 then [digit_char n] else py_decimal (n div 10) @ [digit_char n])"

declare py_decimal.simps [simp del]

text \<open>\<^verbatim>\<open>"{:03d}".format(n)\<close>: the decimal digits, padded with zeros on the left to width 3.\<close>

definition py_03d :: "nat \<Rightarrow> string" where
  "py_03d n = replicate (3 - length (py_decimal n)) (CHR ''0'') @ py_decimal n"

text \<open>\<^verbatim>\<open>x or []\<close> for a value that is a list or \<^verbatim>\<open>None\<close>.\<close>

definition or_empty :: "'a list option \<Rightarrow> 'a list" where
  "or_empty x = (case x of None \<Rightarrow> [] | Some xs \<Rightarrow> xs)"

section \<open>The host: Maya's command API\<close>

text \<open>
  \<^verbatim>\<open>maya.cmds\<close>, \<^verbatim>\<open>maya.mel\<close> and \<^verbatim>\<open>avalon.maya.lib\<close> are not part of the repository. The host is a
  parameter: a scene state of any type \<open>'h\<close> and three functions that answer the calls the source
  makes, grouped by what the call returns (a list of names or \<^verbatim>\<open>None\<close>; one name; nothing the
  source reads). A call may raise, and any call may change the scene.

  A flag of \<^verbatim>\<open>listConnections\<close> that the source does not pass is \<open>False\<close> (or \<open>None\<close>) here.
\<close>

record lc_flags =
  destination :: bool
  node_type :: "string option"
  exactType :: bool
  shapes :: bool
  plugs :: bool
  connections :: bool

definition no_flags :: lc_flags where
  "no_flags = \<lparr>destination = False, node_type = None, exactType = False, shapes = False,
     plugs = False, connections = False\<rparr>"

datatype lcall =
    Ls bool string
    \<comment> \<open>\<^verbatim>\<open>cmds.ls(selection=.., type=..)\<close>\<close>
  | ListConnections string lc_flags
  | ListRelatives string "string option"
    \<comment> \<open>\<^verbatim>\<open>cmds.listRelatives(node, allDescendents=True, type=..)\<close>\<close>
  | ParticleDynamicAttrList string
    \<comment> \<open>\<^verbatim>\<open>cmds.particle(node, query=True, dynamicAttrList=True)\<close>\<close>
  | Duplicate string string
    \<comment> \<open>\<^verbatim>\<open>cmds.duplicate(node, name=..)\<close>\<close>

datatype scall =
    NodeType string
  | CreateNode string
  | Group string
    \<comment> \<open>\<^verbatim>\<open>cmds.group(empty=True, name=..)\<close>\<close>
  | UniqueName string string string
    \<comment> \<open>\<^verbatim>\<open>avalon.maya.lib.unique_name(name, format=.., suffix=..)\<close>\<close>
  | ParticleInstancer string string "string list" "(string \<times> string) list"
    \<comment> \<open>\<^verbatim>\<open>cmds.particleInstancer(system, name=.., object=.., **kwargs)\<close>\<close>

datatype ucall =
    ConnectAttr string string bool
    \<comment> \<open>source plug, destination plug, \<^verbatim>\<open>force\<close>\<close>
  | DisconnectAttr string string
  | SelectClear
  | Select string
  | MelEval string
  | Parent string string
  | CheckBoxGrp string bool
    \<comment> \<open>\<^verbatim>\<open>cmds.checkBoxGrp(name, edit=True, v1=..)\<close>\<close>
  | SetAttr string int

record 'h env =
  list_call :: "lcall \<Rightarrow> 'h \<Rightarrow> (error + string list option) \<times> 'h"
  str_call :: "scall \<Rightarrow> 'h \<Rightarrow> (error + string) \<times> 'h"
  unit_call :: "ucall \<Rightarrow> 'h \<Rightarrow> (error + unit) \<times> 'h"
  iter_set :: "string list \<Rightarrow> string list"
  \<comment> \<open>the Python runtime's iteration order of a \<^verbatim>\<open>set\<close> of strings, given the order in which
      the strings were inserted\<close>

text \<open>Every call to the host is recorded with its answer, in the order the calls are made.\<close>

datatype event =
    LEvent lcall "error + string list option"
  | SEvent scall "error + string"
  | UEvent ucall "error + unit"

section \<open>Computations: scene state, exceptions, transcript\<close>

type_synonym ('h, 'a) run = "'h \<Rightarrow> (error + 'a) \<times> 'h \<times> event list"

definition ok :: "'a \<Rightarrow> ('h, 'a) run" where
  "ok x h = (Inr x, h, [])"

definition throw :: "error \<Rightarrow> ('h, 'a) run" where
  "throw e h = (Inl e, h, [])"

definition and_then :: "('h, 'a) run \<Rightarrow> ('a \<Rightarrow> ('h, 'b) run) \<Rightarrow> ('h, 'b) run" where
  "and_then m f h =
     (case m h of
        (Inl e, h1, t1) \<Rightarrow> (Inl e, h1, t1)
      | (Inr x, h1, t1) \<Rightarrow> (case f x h1 of (r, h2, t2) \<Rightarrow> (r, h2, t1 @ t2)))"

definition lift :: "error + 'a \<Rightarrow> ('h, 'a) run" where
  "lift r h = (r, h, [])"

definition cmds_list :: "'h env \<Rightarrow> lcall \<Rightarrow> ('h, string list option) run" where
  "cmds_list E c h = (case list_call E c h of (r, h1) \<Rightarrow> (r, h1, [LEvent c r]))"

definition cmds_str :: "'h env \<Rightarrow> scall \<Rightarrow> ('h, string) run" where
  "cmds_str E c h = (case str_call E c h of (r, h1) \<Rightarrow> (r, h1, [SEvent c r]))"

definition cmds_unit :: "'h env \<Rightarrow> ucall \<Rightarrow> ('h, unit) run" where
  "cmds_unit E c h = (case unit_call E c h of (r, h1) \<Rightarrow> (r, h1, [UEvent c r]))"

text \<open>\<^verbatim>\<open>for x in xs: f(x)\<close>\<close>

fun for_each :: "('a \<Rightarrow> ('h, unit) run) \<Rightarrow> 'a list \<Rightarrow> ('h, unit) run" where
  "for_each f [] = ok ()"
| "for_each f (x # xs) = and_then (f x) (\<lambda>_. for_each f xs)"

text \<open>\<^verbatim>\<open>for x in v\<close> where \<open>v\<close> is a list or \<^verbatim>\<open>None\<close>: iterating over \<^verbatim>\<open>None\<close> is a TypeError.\<close>

definition iterable :: "'a list option \<Rightarrow> ('h, 'a list) run" where
  "iterable v = (case v of None \<Rightarrow> throw TypeError | Some xs \<Rightarrow> ok xs)"

text \<open>
  \<^verbatim>\<open>[p for p in xs if p in ys]\<close> (\<open>keep = True\<close>) and \<^verbatim>\<open>[p for p in xs if p not in ys]\<close>
  (\<open>keep = False\<close>), where \<open>ys\<close> is a list or \<^verbatim>\<open>None\<close>: the test \<^verbatim>\<open>p in None\<close> is a TypeError,
  and it is only made when \<open>xs\<close> has an element.
\<close>

definition filter_in :: "bool \<Rightarrow> string list \<Rightarrow> string list option \<Rightarrow> ('h, string list) run" where
  "filter_in keep xs ys =
     (case xs of
        [] \<Rightarrow> ok []
      | _ # _ \<Rightarrow>
          (case ys of
             None \<Rightarrow> throw TypeError
           | Some zs \<Rightarrow> ok (filter (\<lambda>p. (p \<in> set zs) = keep) xs)))"

section \<open>lib.py\<close>

subsection \<open>get_houdini_assets\<close>

definition get_houdini_assets :: "'h env \<Rightarrow> bool \<Rightarrow> ('h, string list option) run" where
  "get_houdini_assets E selected =
     (if selected then cmds_list E (Ls True ''houdiniAsset'')
      else cmds_list E (Ls False ''houdiniAsset''))"

subsection \<open>get_shape_transforms\<close>

text \<open>
  A Python \<^verbatim>\<open>set\<close> of strings is the list of the strings inserted into it, in insertion order;
  \<open>iter_set\<close> gives the order in which it is iterated, \<open>remdups\<close> its size.
\<close>

definition get_shape_transforms :: "'h env \<Rightarrow> string \<Rightarrow> ('h, string list) run" where
  "get_shape_transforms E houdini_asset =
     and_then (cmds_str E (NodeType houdini_asset)) (\<lambda>t.
       if t \<noteq> ''houdiniAsset'' then throw (ValueError ''Wrong node type'')
       else
         and_then (cmds_list E (ListConnections houdini_asset
                     (no_flags\<lparr>destination := True, node_type := Some ''mesh''\<rparr>))) (\<lambda>shapes.
         iterable shapes))"

subsection \<open>get_particle_system\<close>

definition get_particle_system :: "'h env \<Rightarrow> string \<Rightarrow> ('h, string) run" where
  "get_particle_system E houdini_asset =
     and_then (cmds_list E (ListConnections houdini_asset
                 (no_flags\<lparr>destination := True, node_type := Some ''nParticle'',
                            shapes := True\<rparr>))) (\<lambda>connections.
     and_then (cmds_list E (ListRelatives houdini_asset (Some ''nParticle''))) (\<lambda>descendents.
     and_then (iterable connections) (\<lambda>cs.
     and_then (filter_in True cs descendents) (\<lambda>connections.
       let particle_systems = iter_set E connections in
       if length particle_systems \<noteq> 1 then
         throw (AssertionError (''This tool does not support multiple nParticles, got ''
                  @ py_decimal (length particle_systems) @ '' nParticles''))
       else ok (hd particle_systems)))))"

subsection \<open>get_particle_attributes, get_instancers, get_input_hierarchy\<close>

definition get_particle_attributes :: "'h env \<Rightarrow> string \<Rightarrow> ('h, string list option) run" where
  "get_particle_attributes E node = cmds_list E (ParticleDynamicAttrList node)"

definition get_instancers :: "'h env \<Rightarrow> string \<Rightarrow> ('h, string list option) run" where
  "get_instancers E houdini_asset =
     cmds_list E (ListConnections houdini_asset
       (no_flags\<lparr>destination := True, node_type := Some ''instancer''\<rparr>))"

definition get_input_hierarchy :: "'h env \<Rightarrow> string \<Rightarrow> ('h, string list option) run" where
  "get_input_hierarchy E instancer =
     and_then (cmds_str E (NodeType instancer)) (\<lambda>t.
       if t \<noteq> ''instancer'' then
         throw (ValueError (''Given node is not of type '' @ [CHR 0x27] @ ''instancer'' @ [CHR 0x27]))
       else cmds_list E (ListConnections (instancer @ ''.inputHierarchy'') no_flags))"

subsection \<open>maintain_connections\<close>

text \<open>
  \<^verbatim>\<open>[[hierarchy[i + 1], hierarchy[i]] for i in range(0, cons, 2)]\<close>: the list is read in pairs
  (this plug, other plug) and each pair is stored as (other, this). A list of odd length makes
  \<^verbatim>\<open>hierarchy[i + 1]\<close> an IndexError at the last pair.
\<close>

fun hierarchy_pairs :: "string list \<Rightarrow> error + (string \<times> string) list" where
  "hierarchy_pairs [] = Inr []"
| "hierarchy_pairs [x] = Inl IndexError"
| "hierarchy_pairs (x # y # zs) =
     (case hierarchy_pairs zs of Inl e \<Rightarrow> Inl e | Inr ps \<Rightarrow> Inr ((y, x) # ps))"

text \<open>Runs a computation and hands its outcome, exception or value, to what follows.\<close>

definition attempt :: "('h, 'a) run \<Rightarrow> ('h, error + 'a) run" where
  "attempt m h = (case m h of (r, h1, t) \<Rightarrow> (Inr r, h1, t))"

text \<open>
  The two nested loops of the \<^verbatim>\<open>try\<close> block fill \<^verbatim>\<open>instance_connections\<close>. The \<^verbatim>\<open>finally\<close>
  block reads that list whatever happened, so the loops return what they had collected
  together with the exception that stopped them, if any.
\<close>

fun collect_instancers ::
  "'h env \<Rightarrow> string list \<Rightarrow> ('h, (string \<times> string) list \<times> error option) run" where
  "collect_instancers E [] = ok ([], None)"
| "collect_instancers E (instancer # rest) =
     and_then
       (attempt
          (and_then (cmds_list E (ListConnections (instancer @ ''.inputHierarchy'')
                       (no_flags\<lparr>connections := True, plugs := True\<rparr>))) (\<lambda>hierarchy.
           and_then (iterable hierarchy) (\<lambda>hs. lift (hierarchy_pairs hs)))))
       (\<lambda>r. case r of
          Inl e \<Rightarrow> ok ([], Some e)
        | Inr ps \<Rightarrow>
            and_then (collect_instancers E rest) (\<lambda>(qs, err). ok (ps @ qs, err)))"

fun collect_nparticles ::
  "'h env \<Rightarrow> string list \<Rightarrow> ('h, (string \<times> string) list \<times> error option) run" where
  "collect_nparticles E [] = ok ([], None)"
| "collect_nparticles E (nparticle # rest) =
     and_then
       (attempt (cmds_list E (ListConnections nparticle
                   (no_flags\<lparr>destination := True, node_type := Some ''instancer''\<rparr>))))
       (\<lambda>r. case r of
          Inl e \<Rightarrow> ok ([], Some e)
        | Inr instancers \<Rightarrow>
            and_then (collect_instancers E (or_empty instancers)) (\<lambda>(ps, err).
              case err of
                Some e \<Rightarrow> ok (ps, Some e)
              | None \<Rightarrow>
                  and_then (collect_nparticles E rest) (\<lambda>(qs, err2). ok (ps @ qs, err2))))"

definition disconnect_all :: "'h env \<Rightarrow> (string \<times> string) list \<Rightarrow> ('h, unit) run" where
  "disconnect_all E cs = for_each (\<lambda>(src, dst). cmds_unit E (DisconnectAttr src dst)) cs"

definition reconnect_all :: "'h env \<Rightarrow> (string \<times> string) list \<Rightarrow> ('h, unit) run" where
  "reconnect_all E cs = for_each (\<lambda>(src, dst). cmds_unit E (ConnectAttr src dst True)) cs"

text \<open>
  The first part of the \<^verbatim>\<open>try\<close> block: the list comprehension and the two loops. An
  exception here is kept with what was collected, for the \<^verbatim>\<open>finally\<close> block.
\<close>

definition collect_connections ::
  "'h env \<Rightarrow> string list option \<Rightarrow> string list option \<Rightarrow>
     ('h, (string \<times> string) list \<times> error option) run" where
  "collect_connections E connected_nparticles descendents =
     and_then (attempt (and_then (iterable connected_nparticles) (\<lambda>cs.
                          filter_in False cs descendents))) (\<lambda>nd.
       case nd of
         Inl e \<Rightarrow> ok ([], Some e)
       | Inr non_descendents \<Rightarrow> collect_nparticles E non_descendents)"

text \<open>
  \<^verbatim>\<open>with maintain_connections(asset): body\<close>. The two queries before \<^verbatim>\<open>try\<close> are outside
  it. An exception inside \<^verbatim>\<open>try\<close> (while collecting, while disconnecting, or thrown in by
  the body at \<^verbatim>\<open>yield\<close>) leads to the \<^verbatim>\<open>finally\<close> block and, when that block completes,
  propagates; an exception of the \<^verbatim>\<open>finally\<close> block itself ends the block and propagates.
\<close>

definition maintain_connections :: "'h env \<Rightarrow> string \<Rightarrow> ('h, 'a) run \<Rightarrow> ('h, 'a) run" where
  "maintain_connections E asset body =
     and_then (cmds_list E (ListConnections asset
                 (no_flags\<lparr>destination := True, node_type := Some ''nParticle'',
                            exactType := True, shapes := True\<rparr>))) (\<lambda>connected_nparticles.
     and_then (cmds_list E (ListRelatives asset None)) (\<lambda>descendents.
     and_then (collect_connections E connected_nparticles descendents)
       (\<lambda>(instance_connections, err).
     and_then (attempt (case err of
                          Some e \<Rightarrow> throw e
                        | None \<Rightarrow>
                            and_then (disconnect_all E instance_connections) (\<lambda>_. body)))
       (\<lambda>outcome.
     and_then (reconnect_all E instance_connections) (\<lambda>_.
     lift outcome)))))"

subsection \<open>map_houdini_asset\<close>

text \<open>
  One value of the \<^verbatim>\<open>asset_mapping\<close> dict: the keys \<^verbatim>\<open>"particle_system"\<close> and
  \<^verbatim>\<open>"hierarchy"\<close>, each of which may be absent. A dict is the list of its items in the
  order its iteration gives them.
\<close>

record asset_entry =
  particle_system :: "(string \<times> string list option) list option"
  hierarchy :: "string list option"

fun input_hierarchies :: "'h env \<Rightarrow> string list \<Rightarrow> ('h, string list) run" where
  "input_hierarchies E [] = ok []"
| "input_hierarchies E (inst # rest) =
     and_then (get_input_hierarchy E inst) (\<lambda>r.
     and_then (iterable r) (\<lambda>xs.
     and_then (input_hierarchies E rest) (\<lambda>ys. ok (xs @ ys))))"

definition map_houdini_asset :: "'h env \<Rightarrow> string \<Rightarrow> ('h, (string \<times> asset_entry) list) run" where
  "map_houdini_asset E asset =
     and_then (get_instancers E asset) (\<lambda>instancers.
     and_then (iterable instancers) (\<lambda>insts.
     and_then (input_hierarchies E insts) (\<lambda>inserted.
     and_then (get_particle_system E asset) (\<lambda>particle_node.
     and_then (get_particle_attributes E particle_node) (\<lambda>attributes.
       ok [(asset, \<lparr>particle_system = Some [(particle_node, attributes)],
                     hierarchy = Some (iter_set E inserted)\<rparr>)])))))"

subsection \<open>replicate\<close>

text \<open>\<^verbatim>\<open>try: ... except RuntimeError: pass\<close>\<close>

definition except_runtime_pass :: "('h, unit) run \<Rightarrow> ('h, unit) run" where
  "except_runtime_pass m h =
     (case m h of
        (Inl (RuntimeError msg), h1, t) \<Rightarrow> (Inr (), h1, t)
      | other \<Rightarrow> other)"

text \<open>
  \<^verbatim>\<open>cmds.particleInstancer(new_system, name=inst_name, object=hierarchy, **kwargs)\<close>: a key of
  \<open>kwargs\<close> that repeats an explicit keyword is a TypeError of the call itself.
\<close>

definition particle_instancer ::
  "'h env \<Rightarrow> string \<Rightarrow> string \<Rightarrow> string list \<Rightarrow> (string \<times> string) list \<Rightarrow> ('h, string) run" where
  "particle_instancer E new_system inst_name objs kwargs =
     (if ''name'' \<in> fst ` set kwargs \<or> ''object'' \<in> fst ` set kwargs then throw TypeError
      else cmds_str E (ParticleInstancer new_system inst_name objs kwargs))"

text \<open>
  The body of the loop over \<^verbatim>\<open>enumerate(asset_mapping.items())\<close>, in three parts; \<open>name\<close>
  already ends with the underscore. First the part after the duplication: connect the particle
  array data, assign the solver, parent, build the instancer.
\<close>

definition wire_entry ::
  "'h env \<Rightarrow> string \<Rightarrow> string \<Rightarrow> string \<Rightarrow> (string \<times> string) list \<Rightarrow> nat \<Rightarrow>
     asset_entry \<Rightarrow> string \<Rightarrow> string \<Rightarrow> ('h, unit) run" where
  "wire_entry E name nucleus asset_group kwargs i mapping data_attr new_system =
     and_then (cmds_unit E (ConnectAttr data_attr (new_system @ ''.cacheArrayData'') False)) (\<lambda>_.
     and_then (cmds_unit E SelectClear) (\<lambda>_.
     and_then (cmds_unit E (Select new_system)) (\<lambda>_.
     and_then (cmds_unit E (MelEval (''assignNSolver '' @ nucleus))) (\<lambda>_.
     and_then (cmds_unit E (Parent new_system asset_group)) (\<lambda>_.
     and_then (particle_instancer E new_system (name @ py_03d i @ ''_INST'')
                 (case hierarchy mapping of None \<Rightarrow> [] | Some hs \<Rightarrow> hs) kwargs)
       (\<lambda>new_instancer.
     and_then (cmds_unit E (CheckBoxGrp ''AEdisplayAllTypes'' True)) (\<lambda>_.
     and_then (cmds_unit E (SetAttr (new_instancer @ ''.rotationAngleUnits'') 1)) (\<lambda>_.
     and_then (cmds_unit E (SetAttr (new_instancer @ ''.rotationOrder'') 0)) (\<lambda>_.
     except_runtime_pass (cmds_unit E (Parent new_instancer asset_group)))))))))))"

text \<open>The duplication and its assert; \<^verbatim>\<open>len(None)\<close> is a TypeError.\<close>

definition duplicate_entry ::
  "'h env \<Rightarrow> string \<Rightarrow> string \<Rightarrow> string \<Rightarrow> (string \<times> string) list \<Rightarrow> nat \<Rightarrow>
     asset_entry \<Rightarrow> string \<Rightarrow> string \<Rightarrow> ('h, unit) run" where
  "duplicate_entry E name nucleus asset_group kwargs i mapping psys data_attr =
     and_then (cmds_list E (Duplicate psys (name @ py_03d i @ ''_PART''))) (\<lambda>r.
     and_then (iterable r) (\<lambda>new_systems.
       if length new_systems \<noteq> 1 then
         throw (AssertionError (''This is a bug, duplicated '' @ [CHR 0x27]
                  @ py_decimal (length new_systems) @ [CHR 0x27] @ '' nParticle nodes''))
       else wire_entry E name nucleus asset_group kwargs i mapping data_attr (hd new_systems)))"

text \<open>The whole body: the checks on the entry and the query of \<^verbatim>\<open>cacheArrayData\<close>.\<close>

definition replicate_entry ::
  "'h env \<Rightarrow> string \<Rightarrow> string \<Rightarrow> string \<Rightarrow> (string \<times> string) list \<Rightarrow> nat \<Rightarrow>
     string \<times> asset_entry \<Rightarrow> ('h, unit) run" where
  "replicate_entry E name nucleus asset_group kwargs i item =
     (case item of (asset, mapping) \<Rightarrow>
     (case particle_system mapping of
        None \<Rightarrow>
          throw (RuntimeError (''Incomplete mapping of asset '' @ [CHR 0x27] @ asset @ [CHR 0x27]
                   @ '', missing particle_system''))
      | Some particle_data \<Rightarrow>
         (case particle_data of
            [] \<Rightarrow> throw IndexError
          | (psys, attrs) # others \<Rightarrow>
              and_then (cmds_list E (ListConnections (psys @ ''.cacheArrayData'')
                          (no_flags\<lparr>plugs := True\<rparr>))) (\<lambda>r.
                if length (or_empty r) \<noteq> 1 then throw (AssertionError ''This is a bug'')
                else duplicate_entry E name nucleus asset_group kwargs i mapping psys
                       (hd (or_empty r))))))"

fun replicate_loop ::
  "'h env \<Rightarrow> string \<Rightarrow> string \<Rightarrow> string \<Rightarrow> (string \<times> string) list \<Rightarrow> nat \<Rightarrow>
     (string \<times> asset_entry) list \<Rightarrow> ('h, unit) run" where
  "replicate_loop E name nucleus asset_group kwargs i [] = ok ()"
| "replicate_loop E name nucleus asset_group kwargs i (item # items) =
     and_then (replicate_entry E name nucleus asset_group kwargs i item) (\<lambda>_.
     replicate_loop E name nucleus asset_group kwargs (Suc i) items)"

text \<open>
  \<^verbatim>\<open>replicate(name, asset_mapping, attribute_mapping=None)\<close>. \<^verbatim>\<open>if not attribute_mapping\<close>
  replaces \<^verbatim>\<open>None\<close> and the empty dict by the empty dict.
\<close>

definition choose_nucleus :: "'h env \<Rightarrow> string list option \<Rightarrow> ('h, string) run" where
  "choose_nucleus E nuclea =
     (case or_empty nuclea of
        [] \<Rightarrow> cmds_str E (CreateNode ''nucleus'')
      | first # others \<Rightarrow> ok first)"

text \<open>The part of \<open>replicate\<close> after the pre-flight check, for the nucleus it chose.\<close>

definition replicate_with_nucleus ::
  "'h env \<Rightarrow> string \<Rightarrow> (string \<times> asset_entry) list \<Rightarrow> (string \<times> string) list \<Rightarrow> string \<Rightarrow>
     ('h, bool) run" where
  "replicate_with_nucleus E name asset_mapping kwargs nucleus =
     and_then (cmds_str E (UniqueName (name @ ''_'') ''%03d'' ''_GRP'')) (\<lambda>unique_name.
     and_then (cmds_str E (Group (unique_name @ ''_GRP''))) (\<lambda>asset_group.
     and_then (replicate_loop E (name @ ''_'') nucleus asset_group kwargs 0 asset_mapping) (\<lambda>_.
     ok True)))"

definition replicate_asset ::
  "'h env \<Rightarrow> string \<Rightarrow> (string \<times> asset_entry) list \<Rightarrow> (string \<times> string) list option \<Rightarrow>
     ('h, bool) run" where
  "replicate_asset E name asset_mapping attribute_mapping =
     and_then (cmds_list E (Ls False ''nucleus'')) (\<lambda>nuclea.
     and_then (choose_nucleus E nuclea) (\<lambda>nucleus.
     replicate_with_nucleus E name asset_mapping (or_empty attribute_mapping) nucleus))"

subsection \<open>update_asset\<close>

text \<open>\<^verbatim>\<open>for i, shape in enumerate(new_shapes, 1)\<close> with \<open>idx = count + i\<close>.\<close>

fun connect_new_shapes :: "'h env \<Rightarrow> string \<Rightarrow> nat \<Rightarrow> string list \<Rightarrow> ('h, unit) run" where
  "connect_new_shapes E instancer idx [] = ok ()"
| "connect_new_shapes E instancer idx (shape # rest) =
     and_then (cmds_unit E (ConnectAttr (shape @ ''.matrix'')
                 (instancer @ ''.inputHierarchy['' @ py_decimal idx @ '']'') False)) (\<lambda>_.
     connect_new_shapes E instancer (Suc idx) rest)"

text \<open>The \<^verbatim>\<open>logging.info\<close> line writes to the Python log only and is left out.\<close>

definition update_asset :: "'h env \<Rightarrow> string \<Rightarrow> ('h, bool) run" where
  "update_asset E asset =
     and_then (get_shape_transforms E asset) (\<lambda>before_update.
     and_then (cmds_list E (ListRelatives asset None)) (\<lambda>asset_hierarchy.
       case iter_set E before_update of
         [] \<Rightarrow> throw IndexError
       | transform # others \<Rightarrow>
     and_then (cmds_list E (ListConnections transform
                 (no_flags\<lparr>destination := True, node_type := Some ''instancer''\<rparr>))) (\<lambda>r.
     and_then (filter_in False (or_empty r) asset_hierarchy) (\<lambda>instancers.
       if instancers = [] then throw (AssertionError ''This is a bug'')
       else
     and_then (maintain_connections E asset
                 (cmds_unit E (MelEval (''houdiniEngine_syncAsset '' @ [CHR 0x22] @ asset
                    @ [CHR 0x22] @ '';'')))) (\<lambda>_.
     and_then (get_shape_transforms E asset) (\<lambda>after_update.
       let count = length (remdups before_update);
           new_shapes = iter_set E (filter (\<lambda>x. x \<notin> set before_update)
                                      (iter_set E after_update))
       in
     and_then (connect_new_shapes E (hd instancers) (Suc count) new_shapes) (\<lambda>_.
     ok True)))))))"

section \<open>app.py\<close>



subsection \<open>SearchComboBox\<close>

text \<open>
  A combo box is its list of item texts and the text of its editable line. \<open>picker_id\<close> is the
  identity of the Python object: two boxes created at different times differ in it even when
  they show the same texts.
\<close>

record picker =
  picker_id :: nat
  item_texts :: "string list"
  current_text :: string

text \<open>\<^verbatim>\<open>populate\<close>: clear, add the placeholder, add the items; the line shows the first item.\<close>

definition populate :: "string list \<Rightarrow> picker \<Rightarrow> picker" where
  "populate items p = p\<lparr>item_texts := [''''] @ items, current_text := ''''\<rparr>"

definition get_valid_value :: "picker \<Rightarrow> string option" where
  "get_valid_value p =
     (if current_text p \<notin> set (item_texts p) then None else Some (current_text p))"

subsection \<open>App\<close>

text \<open>
  The fields of the dialog that its methods read or write. A widget of the mapping layout is
  a group box; \<^verbatim>\<open>deleteLater()\<close> marks it, and Qt destroys a marked widget (and takes it out
  of the layout) when control returns to the event loop. Titles, labels and the inner layouts
  only affect what is drawn and are left out. \<open>next_id\<close> numbers the objects created.
\<close>

record section_box =
  box_id :: nat
  object_name :: string
  delete_later :: bool

record app =
  from_selection :: bool
  name_field :: string
  mapping_layout :: "section_box list"
  mapping_data :: "(string \<times> picker) list"
  selection :: "string list option"
  next_id :: nat

text \<open>The loop of \<^verbatim>\<open>_create_mapper\<close>: one populated picker per source, stored under the source.\<close>

fun create_pickers :: "string list \<Rightarrow> string list \<Rightarrow> app \<Rightarrow> app" where
  "create_pickers [] targets a = a"
| "create_pickers (source # rest) targets a =
     create_pickers rest targets
       (a\<lparr>mapping_data :=
             AList.update source
               (populate targets \<lparr>picker_id = next_id a, item_texts = [], current_text = ''''\<rparr>)
               (mapping_data a),
          next_id := Suc (next_id a)\<rparr>)"







text \<open>
  The dict comprehension of \<^verbatim>\<open>process\<close>. The texts are names of Maya attributes, on which
  \<^verbatim>\<open>str\<close> is the identity.
\<close>

definition attribute_mapping_of :: "(string \<times> picker) list \<Rightarrow> (string \<times> string) list" where
  "attribute_mapping_of md =
     concat (map (\<lambda>(s, p).
               case get_valid_value p of
                 None \<Rightarrow> []
               | Some v \<Rightarrow> if v = '''' then [] else [(s, v)]) md)"

definition process :: "'h env \<Rightarrow> app \<Rightarrow> ('h, unit) run" where
  "process E a =
     (if name_field a = [] then throw (RuntimeError ''Name is a required field'')
      else
        and_then (iterable (selection a)) (\<lambda>assets.
        for_each (\<lambda>asset.
            and_then (map_houdini_asset E asset) (\<lambda>asset_mapping.
            and_then (replicate_asset E (name_field a) asset_mapping
                        (Some (attribute_mapping_of (mapping_data a)))) (\<lambda>_. ok ())))
          assets))"

definition update_all :: "'h env \<Rightarrow> ('h, unit) run" where
  "update_all E =
     and_then (get_houdini_assets E False) (\<lambda>r.
     and_then (iterable r) (\<lambda>assets.
     for_each (\<lambda>asset. and_then (update_asset E asset) (\<lambda>_. ok ())) assets))"

definition update_selected :: "'h env \<Rightarrow> ('h, unit) run" where
  "update_selected E =
     and_then (get_houdini_assets E True) (\<lambda>r.
     and_then (iterable r) (\<lambda>assets.
     for_each (\<lambda>asset. and_then (update_asset E asset) (\<lambda>_. ok ())) assets))"

text \<open>
  Claim C5 in the spec's words: the result is the host's answer to
  \<^verbatim>\<open>cmds.ls(selection=True, type="houdiniAsset")\<close> when \<open>selected\<close>, and to
  \<^verbatim>\<open>cmds.ls(type="houdiniAsset")\<close> otherwise, with nothing done to it.
\<close>

definition host_ls_houdini_assets :: "'h env \<Rightarrow> bool \<Rightarrow> 'h \<Rightarrow> error + string list option" where
  "host_ls_houdini_assets E selected h = fst (list_call E (Ls selected ''houdiniAsset'') h)"

section \<open>Predicates on outcomes\<close>

definition is_assertion :: "error + 'a \<Rightarrow> bool" where
  "is_assertion r = (case r of Inl (AssertionError msg) \<Rightarrow> True | _ \<Rightarrow> False)"

section \<open>Predicates on transcripts\<close>

text \<open>Every event a computation records, from any scene, satisfies \<open>P\<close>.\<close>

definition emits :: "(event \<Rightarrow> bool) \<Rightarrow> ('h, 'a) run \<Rightarrow> bool" where
  "emits P m = (\<forall>h. list_all P (snd (snd (m h))))"

text \<open>A call that only reads the scene.\<close>

definition is_query :: "event \<Rightarrow> bool" where
  "is_query ev =
     (case ev of
        LEvent c r \<Rightarrow> (case c of Duplicate n new_name \<Rightarrow> False | _ \<Rightarrow> True)
      | SEvent c r \<Rightarrow> (case c of NodeType n \<Rightarrow> True | _ \<Rightarrow> False)
      | UEvent c r \<Rightarrow> False)"


text \<open>
  The calls the loop of \<open>replicate\<close> can make, for a given nucleus, group and keyword
  arguments.
\<close>

definition entry_event :: "string \<Rightarrow> string \<Rightarrow> (string \<times> string) list \<Rightarrow> event \<Rightarrow> bool" where
  "entry_event nucleus grp kw ev =
     (case ev of
        LEvent c r \<Rightarrow>
          (case c of
             ListConnections n f \<Rightarrow> True
           | Duplicate n new_name \<Rightarrow> True
           | _ \<Rightarrow> False)
      | SEvent c r \<Rightarrow>
          (case c of
             ParticleInstancer sys n objs k \<Rightarrow> k = kw
           | _ \<Rightarrow> False)
      | UEvent c r \<Rightarrow>
          (case c of
             ConnectAttr src dst force \<Rightarrow> \<not> force
           | DisconnectAttr src dst \<Rightarrow> False
           | SelectClear \<Rightarrow> True
           | Select n \<Rightarrow> True
           | MelEval cmd \<Rightarrow> cmd = ''assignNSolver '' @ nucleus
           | Parent child parent \<Rightarrow> parent = grp
           | CheckBoxGrp n v \<Rightarrow> True
           | SetAttr a v \<Rightarrow> True))"

section \<open>An example scene\<close>

text \<open>
  A host that answers from a fixed scene and accepts every edit. \<^verbatim>\<open>hda1\<close> is a Houdini asset
  with one nParticle (\<^verbatim>\<open>hda1_partShape\<close> under the transform \<^verbatim>\<open>hda1_part\<close>), one instancer and
  two meshes; \<^verbatim>\<open>hda2\<close> has two nParticles; \<^verbatim>\<open>hda3\<close> has none, and Maya answers \<^verbatim>\<open>None\<close> to a
  query that finds nothing. The scene has no nucleus.
\<close>

definition demo_list :: "lcall \<Rightarrow> string list option" where
  "demo_list c =
     (case c of
        Ls sel t \<Rightarrow>
          (if t = ''houdiniAsset'' then
             (if sel then Some [''hda1''] else Some [''hda1'', ''hda2'', ''hda3''])
           else None)
      | ListConnections n f \<Rightarrow>
          (if n = ''hda1'' \<and> node_type f = Some ''nParticle'' then Some [''hda1_partShape'']
           else if n = ''hda1'' \<and> node_type f = Some ''instancer'' then Some [''hda1_inst'']
           else if n = ''hda1'' \<and> node_type f = Some ''mesh'' then Some [''cube'', ''ball'']
           else if n = ''hda2'' \<and> node_type f = Some ''nParticle'' then
             Some [''p1Shape'', ''p2Shape'']
           else if n = ''hda1_inst.inputHierarchy'' then Some [''cube'', ''ball'']
           else if n = ''hda1_partShape.cacheArrayData'' then Some [''hda1.outputPartArrayData'']
           else if n = ''hda1_part.cacheArrayData'' then Some [''hda1.outputPartArrayData'']
           else None)
      | ListRelatives n t \<Rightarrow>
          (if n = ''hda1'' then
             (if t = Some ''nParticle'' then Some [''hda1_partShape'']
              else Some [''hda1_part'', ''hda1_partShape'', ''hda1_inst''])
           else if n = ''hda2'' then Some [''p1Shape'', ''p2Shape'']
           else None)
      | ParticleDynamicAttrList n \<Rightarrow> Some [''radiusPP:float'', ''index'']
      | Duplicate n new_name \<Rightarrow>
          (if n = ''hda1_part'' then Some [new_name, new_name @ ''Shape''] else Some [new_name]))"

definition demo_str :: "scall \<Rightarrow> string" where
  "demo_str c =
     (case c of
        NodeType n \<Rightarrow>
          (if n = ''hda1'' \<or> n = ''hda2'' \<or> n = ''hda3'' then ''houdiniAsset''
           else if n = ''hda1_inst'' then ''instancer''
           else ''transform'')
      | CreateNode t \<Rightarrow> t @ ''1''
      | Group n \<Rightarrow> n
      | UniqueName n f s \<Rightarrow> n @ ''001''
      | ParticleInstancer sys n objs kw \<Rightarrow> n)"

definition demo :: "unit env" where
  "demo = \<lparr>list_call = (\<lambda>c h. (Inr (demo_list c), h)),
           str_call = (\<lambda>c h. (Inr (demo_str c), h)),
           unit_call = (\<lambda>c h. (Inr (), h)),
           iter_set = remdups\<rparr>"

text \<open>The dialog with an empty name field, and with a name and one picker set by the artist.\<close>

definition unnamed_app :: app where
  "unnamed_app =
     \<lparr>from_selection = True, name_field = '''', mapping_layout = [], mapping_data = [],
      selection = Some [''hda1''], next_id = 0\<rparr>"

text \<open>A mapping as \<open>map_houdini_asset\<close> builds it for \<^verbatim>\<open>hda1\<close>, and the transcript of replicating it.\<close>

definition demo_mapping :: "(string \<times> asset_entry) list" where
  "demo_mapping =
     [(''hda1'', \<lparr>particle_system = Some [(''hda1_partShape'', Some [''radiusPP:float'', ''index''])],
                  hierarchy = Some [''cube'', ''ball'']\<rparr>)]"

definition demo_replicate_transcript :: "event list" where
  "demo_replicate_transcript =
     [LEvent (Ls False ''nucleus'') (Inr None),
      SEvent (CreateNode ''nucleus'') (Inr ''nucleus1''),
      SEvent (UniqueName ''fx_'' ''%03d'' ''_GRP'') (Inr ''fx_001''),
      SEvent (Group ''fx_001_GRP'') (Inr ''fx_001_GRP''),
      LEvent (ListConnections ''hda1_partShape.cacheArrayData'' (no_flags\<lparr>plugs := True\<rparr>))
        (Inr (Some [''hda1.outputPartArrayData''])),
      LEvent (Duplicate ''hda1_partShape'' ''fx_000_PART'') (Inr (Some [''fx_000_PART''])),
      UEvent (ConnectAttr ''hda1.outputPartArrayData'' ''fx_000_PART.cacheArrayData'' False) (Inr ()),
      UEvent SelectClear (Inr ()),
      UEvent (Select ''fx_000_PART'') (Inr ()),
      UEvent (MelEval ''assignNSolver nucleus1'') (Inr ()),
      UEvent (Parent ''fx_000_PART'' ''fx_001_GRP'') (Inr ()),
      SEvent (ParticleInstancer ''fx_000_PART'' ''fx_000_INST'' [''cube'', ''ball''] [])
        (Inr ''fx_000_INST''),
      UEvent (CheckBoxGrp ''AEdisplayAllTypes'' True) (Inr ()),
      UEvent (SetAttr ''fx_000_INST.rotationAngleUnits'' 1) (Inr ()),
      UEvent (SetAttr ''fx_000_INST.rotationOrder'' 0) (Inr ()),
      UEvent (Parent ''fx_000_INST'' ''fx_001_GRP'') (Inr ())]"





text \<open>An event that, when it is a call of \<^verbatim>\<open>particleInstancer\<close>, carries the keyword arguments \<open>kw\<close>.\<close>

definition instancer_kwargs :: "(string \<times> string) list \<Rightarrow> event \<Rightarrow> bool" where
  "instancer_kwargs kw ev =
     (case ev of
        SEvent c r \<Rightarrow> (case c of ParticleInstancer sys n objs k \<Rightarrow> k = kw | _ \<Rightarrow> True)
      | _ \<Rightarrow> True)"

text \<open>
  The dialog after the artist named the asset and touched three pickers: \<^verbatim>\<open>scale\<close> is set to
  an item, \<^verbatim>\<open>position\<close> is left on the placeholder, and \<^verbatim>\<open>shear\<close> holds a typed text that is
  not an item.
\<close>

definition chosen_app :: app where
  "chosen_app =
     \<lparr>from_selection = True, name_field = ''fx'', mapping_layout = [],
      mapping_data =
        [(''position'', \<lparr>picker_id = 1, item_texts = ['''', ''radiusPP'', ''index''],
                          current_text = ''''\<rparr>),
         (''scale'', \<lparr>picker_id = 2, item_texts = ['''', ''radiusPP'', ''index''],
                       current_text = ''radiusPP''\<rparr>),
         (''shear'', \<lparr>picker_id = 3, item_texts = ['''', ''radiusPP'', ''index''],
                       current_text = ''radius''\<rparr>)],
      selection = Some [''hda1''], next_id = 4\<rparr>"



definition fresh_box :: "nat \<Rightarrow> section_box \<Rightarrow> bool" where
  "fresh_box n w = (n \<le> box_id w \<and> \<not> delete_later w)"

section \<open>A scene in which the sync removes a shape\<close>

text \<open>
  A host that keeps the nodes of the scene and the connections into the replicated
  instancer. \<^verbatim>\<open>disconnectAttr\<close> removes a connection (and raises when there is none),
  \<^verbatim>\<open>connectAttr\<close> adds one and raises when the node of the source plug does not exist, and the
  MEL command (the sync of the Houdini asset) rebuilds the asset without its cube.
\<close>

record scene =
  nodes :: "string list"
  wires :: "(string \<times> string) list"

definition plug_node :: "string \<Rightarrow> string" where
  "plug_node p = takeWhile (\<lambda>c. c \<noteq> CHR ''.'') p"

definition sync_list :: "lcall \<Rightarrow> scene \<Rightarrow> string list option" where
  "sync_list c s =
     (case c of
        ListConnections n f \<Rightarrow>
          (if n = ''hda1'' \<and> node_type f = Some ''nParticle'' then Some [''fx_000_PARTShape'']
           else if n = ''fx_000_PARTShape'' \<and> node_type f = Some ''instancer'' then
             Some [''fx_000_INST'']
           else if n = ''fx_000_INST.inputHierarchy'' then
             (case wires s of
                [] \<Rightarrow> None
              | w # ws \<Rightarrow> Some (concat (map (\<lambda>(src, dst). [dst, src]) (w # ws))))
           else None)
      | ListRelatives n t \<Rightarrow>
          (if n = ''hda1'' then Some (filter (\<lambda>x. x \<in> set (nodes s)) [''hda1_cube'', ''hda1_ball''])
           else None)
      | _ \<Rightarrow> None)"

definition sync_unit :: "ucall \<Rightarrow> scene \<Rightarrow> (error + unit) \<times> scene" where
  "sync_unit c s =
     (case c of
        DisconnectAttr src dst \<Rightarrow>
          (if (src, dst) \<in> set (wires s) then
             (Inr (), s\<lparr>wires := removeAll (src, dst) (wires s)\<rparr>)
           else (Inl (RuntimeError ''There is no connection to disconnect''), s))
      | ConnectAttr src dst force \<Rightarrow>
          (if plug_node src \<in> set (nodes s) then
             (Inr (), s\<lparr>wires := wires s @ [(src, dst)]\<rparr>)
           else (Inl (RuntimeError ''No object matches name''), s))
      | MelEval cmd \<Rightarrow> (Inr (), s\<lparr>nodes := removeAll ''hda1_cube'' (nodes s)\<rparr>)
      | _ \<Rightarrow> (Inr (), s))"

definition sync_env :: "scene env" where
  "sync_env = \<lparr>list_call = (\<lambda>c s. (Inr (sync_list c s), s)),
               str_call = (\<lambda>c s. (Inr '''', s)),
               unit_call = sync_unit,
               iter_set = remdups\<rparr>"

definition replicated_scene :: scene where
  "replicated_scene =
     \<lparr>nodes = [''hda1'', ''hda1_cube'', ''hda1_ball'', ''fx_000_PARTShape'', ''fx_000_INST''],
      wires = [(''hda1_cube.matrix'', ''fx_000_INST.inputHierarchy[0]''),
               (''hda1_ball.matrix'', ''fx_000_INST.inputHierarchy[1]'')]\<rparr>"

text \<open>The body \<open>update_asset\<close> runs inside the context manager.\<close>

definition sync_body :: "'h env \<Rightarrow> string \<Rightarrow> ('h, unit) run" where
  "sync_body E asset =
     cmds_unit E (MelEval (''houdiniEngine_syncAsset '' @ [CHR 0x22] @ asset @ [CHR 0x22] @ '';''))"

section \<open>Predicates on the transcript of the context manager\<close>

text \<open>A computation that ends with a value from every scene.\<close>

definition never_raises :: "('h, 'a) run \<Rightarrow> bool" where
  "never_raises m = (\<forall>h. \<exists>x. fst (m h) = Inr x)"

text \<open>
  On entry the context manager only queries the scene and disconnects connections of the
  list \<open>cs\<close> it collected.
\<close>

definition entry_phase_event :: "(string \<times> string) list \<Rightarrow> event \<Rightarrow> bool" where
  "entry_phase_event cs ev =
     (case ev of
        UEvent c r \<Rightarrow> (case c of DisconnectAttr src dst \<Rightarrow> (src, dst) \<in> set cs | _ \<Rightarrow> False)
      | _ \<Rightarrow> is_query ev)"

definition succeeded :: "event \<Rightarrow> bool" where
  "succeeded ev =
     (case ev of
        LEvent c r \<Rightarrow> (case r of Inl e \<Rightarrow> False | Inr v \<Rightarrow> True)
      | SEvent c r \<Rightarrow> (case r of Inl e \<Rightarrow> False | Inr v \<Rightarrow> True)
      | UEvent c r \<Rightarrow> (case r of Inl e \<Rightarrow> False | Inr v \<Rightarrow> True))"

text \<open>\<^verbatim>\<open>connectAttr(src, dst, force=True)\<close>, accepted, for each connection of \<open>cs\<close> in order.\<close>

definition reconnections :: "(string \<times> string) list \<Rightarrow> event list" where
  "reconnections cs = map (\<lambda>(src, dst). UEvent (ConnectAttr src dst True) (Inr ())) cs"

section \<open>Two hosts that answer alike\<close>

text \<open>
  \<open>R\<close> relates the scenes of two hosts (of possibly different kinds). The hosts answer alike
  when, from related scenes, every call gets the same answer and leaves related scenes, and
  the Python runtime iterates sets in the same order in both.
\<close>

definition same_answers :: "('g \<Rightarrow> 'h \<Rightarrow> bool) \<Rightarrow> 'g env \<Rightarrow> 'h env \<Rightarrow> bool" where
  "same_answers R E1 E2 =
     ((\<forall>c g h. R g h \<longrightarrow>
         fst (list_call E1 c g) = fst (list_call E2 c h)
         \<and> R (snd (list_call E1 c g)) (snd (list_call E2 c h)))
      \<and> (\<forall>c g h. R g h \<longrightarrow>
         fst (str_call E1 c g) = fst (str_call E2 c h)
         \<and> R (snd (str_call E1 c g)) (snd (str_call E2 c h)))
      \<and> (\<forall>c g h. R g h \<longrightarrow>
         fst (unit_call E1 c g) = fst (unit_call E2 c h)
         \<and> R (snd (unit_call E1 c g)) (snd (unit_call E2 c h)))
      \<and> iter_set E1 = iter_set E2)"

text \<open>
  Two computations run alike when, from related scenes, they end with the same outcome and
  the same transcript, in related scenes.
\<close>

definition same_run :: "('g \<Rightarrow> 'h \<Rightarrow> bool) \<Rightarrow> ('g, 'a) run \<Rightarrow> ('h, 'a) run \<Rightarrow> bool" where
  "same_run R m1 m2 =
     (\<forall>g h. R g h \<longrightarrow>
        fst (m1 g) = fst (m2 h)
        \<and> R (fst (snd (m1 g))) (fst (snd (m2 h)))
        \<and> snd (snd (m1 g)) = snd (snd (m2 h)))"

text \<open>The example scene on a host that also counts the calls it answers.\<close>

definition counting_demo :: "nat env" where
  "counting_demo = \<lparr>list_call = (\<lambda>c n. (Inr (demo_list c), Suc n)),
                     str_call = (\<lambda>c n. (Inr (demo_str c), Suc n)),
                     unit_call = (\<lambda>c n. (Inr (), Suc n)),
                     iter_set = remdups\<rparr>"



section \<open>Results\<close>

text \<open>
  C5. \<open>get_houdini_assets selected\<close> returns exactly what the host answers to the one
  \<^verbatim>\<open>cmds.ls\<close> query it makes (selection flag as given, type \<^verbatim>\<open>houdiniAsset\<close>): the value is
  not filtered, reordered or transformed, the scene is what the host left, and that query is
  the only call made.
\<close>

theorem get_houdini_assets_is_host_query:
  "get_houdini_assets E selected h =
     (host_ls_houdini_assets E selected h,
      snd (list_call E (Ls selected ''houdiniAsset'') h),
      [LEvent (Ls selected ''houdiniAsset'') (host_ls_houdini_assets E selected h)])"
  by (cases selected)
     (simp_all add: get_houdini_assets_def host_ls_houdini_assets_def cmds_list_def
        split: prod.splits)

subsection \<open>Stepping through a computation\<close>

lemma and_then_ok [simp]: "and_then (ok x) f = f x"
  by (rule ext) (simp add: and_then_def ok_def split: prod.splits)

lemma and_then_throw [simp]: "and_then (throw e) f = throw e"
  by (rule ext) (simp add: and_then_def throw_def)

lemma and_then_lift_Inr [simp]: "and_then (lift (Inr x)) f = f x"
  by (rule ext) (simp add: and_then_def lift_def split: prod.splits)

lemma and_then_lift_Inl [simp]: "and_then (lift (Inl e)) f = throw e"
  by (rule ext) (simp add: and_then_def lift_def throw_def)

lemma and_then_step:
  "m h = (Inr x, h1, t1) \<Longrightarrow>
   and_then m f h = (fst (f x h1), fst (snd (f x h1)), t1 @ snd (snd (f x h1)))"
  by (simp add: and_then_def split: prod.splits)

lemma and_then_stop: "m h = (Inl e, h1, t1) \<Longrightarrow> and_then m f h = (Inl e, h1, t1)"
  by (simp add: and_then_def)

lemma cmds_list_step: "list_call E c h = (r, h1) \<Longrightarrow> cmds_list E c h = (r, h1, [LEvent c r])"
  by (simp add: cmds_list_def)

lemma cmds_str_step: "str_call E c h = (r, h1) \<Longrightarrow> cmds_str E c h = (r, h1, [SEvent c r])"
  by (simp add: cmds_str_def)

lemma cmds_unit_step: "unit_call E c h = (r, h1) \<Longrightarrow> cmds_unit E c h = (r, h1, [UEvent c r])"
  by (simp add: cmds_unit_def)

lemmas demo_defs = demo_def demo_list_def demo_str_def no_flags_def

subsection \<open>The guards of the operations\<close>

lemma get_shape_transforms_wrong_type:
  "str_call E (NodeType n) h = (Inr t, h1) \<Longrightarrow> t \<noteq> ''houdiniAsset'' \<Longrightarrow>
   get_shape_transforms E n h =
     (Inl (ValueError ''Wrong node type''), h1, [SEvent (NodeType n) (Inr t)])"
  by (simp add: get_shape_transforms_def and_then_step cmds_str_step throw_def)

lemma get_input_hierarchy_wrong_type:
  "str_call E (NodeType n) h = (Inr t, h1) \<Longrightarrow> t \<noteq> ''instancer'' \<Longrightarrow>
   get_input_hierarchy E n h =
     (Inl (ValueError (''Given node is not of type '' @ [CHR 0x27] @ ''instancer'' @ [CHR 0x27])),
      h1, [SEvent (NodeType n) (Inr t)])"
  by (simp add: get_input_hierarchy_def and_then_step cmds_str_step throw_def)

lemma replicate_entry_missing_particle_system:
  "particle_system m = None \<Longrightarrow>
   replicate_entry E name nucleus grp kw i (asset, m) h =
     (Inl (RuntimeError (''Incomplete mapping of asset '' @ [CHR 0x27] @ asset @ [CHR 0x27]
             @ '', missing particle_system'')), h, [])"
  by (simp add: replicate_entry_def throw_def)

lemma get_particle_system_assert:
  "list_call E (ListConnections a
       (no_flags\<lparr>destination := True, node_type := Some ''nParticle'', shapes := True\<rparr>)) h
     = (Inr (Some cs), h1) \<Longrightarrow>
   list_call E (ListRelatives a (Some ''nParticle'')) h1 = (Inr (Some ds), h2) \<Longrightarrow>
   length (iter_set E (filter (\<lambda>p. p \<in> set ds) cs)) \<noteq> 1 \<Longrightarrow>
   is_assertion (fst (get_particle_system E a h))"
  by (cases cs)
     (simp_all add: get_particle_system_def and_then_step cmds_list_step iterable_def
        filter_in_def throw_def is_assertion_def ok_def Let_def)

lemma replicate_entry_plug_assert:
  "particle_system m = Some ((psys, attrs) # others) \<Longrightarrow>
   list_call E (ListConnections (psys @ ''.cacheArrayData'') (no_flags\<lparr>plugs := True\<rparr>)) h
     = (Inr r, h1) \<Longrightarrow>
   length (or_empty r) \<noteq> 1 \<Longrightarrow>
   fst (replicate_entry E name nucleus grp kw i (asset, m) h)
     = Inl (AssertionError ''This is a bug'')"
  by (simp add: replicate_entry_def and_then_step cmds_list_step throw_def Let_def)

lemma replicate_entry_duplicate_assert:
  "particle_system m = Some ((psys, attrs) # others) \<Longrightarrow>
   list_call E (ListConnections (psys @ ''.cacheArrayData'') (no_flags\<lparr>plugs := True\<rparr>)) h
     = (Inr r, h1) \<Longrightarrow>
   length (or_empty r) = 1 \<Longrightarrow>
   list_call E (Duplicate psys (name @ py_03d i @ ''_PART'')) h1
     = (Inr (Some new_systems), h2) \<Longrightarrow>
   length new_systems \<noteq> 1 \<Longrightarrow>
   is_assertion (fst (replicate_entry E name nucleus grp kw i (asset, m) h))"
  by (simp add: replicate_entry_def duplicate_entry_def and_then_step cmds_list_step throw_def
        iterable_def ok_def is_assertion_def)

lemma update_asset_assert:
  "get_shape_transforms E asset h = (Inr before, h1, t1) \<Longrightarrow>
   list_call E (ListRelatives asset None) h1 = (Inr (Some asset_hierarchy), h2) \<Longrightarrow>
   iter_set E before = transform # others \<Longrightarrow>
   list_call E (ListConnections transform
       (no_flags\<lparr>destination := True, node_type := Some ''instancer''\<rparr>)) h2 = (Inr r, h3) \<Longrightarrow>
   filter (\<lambda>i. i \<notin> set asset_hierarchy) (or_empty r) = [] \<Longrightarrow>
   fst (update_asset E asset h) = Inl (AssertionError ''This is a bug'')"
  by (cases "or_empty r")
     (simp_all add: update_asset_def and_then_step cmds_list_step throw_def filter_in_def ok_def)

text \<open>
  C9. When the name field of the dialog is empty, \<open>process\<close> raises
  \<^verbatim>\<open>RuntimeError("Name is a required field")\<close> at once: no call reaches the host (the
  transcript is empty, so neither \<open>map_houdini_asset\<close> nor \<open>replicate\<close> ran) and the scene is
  the one it started from.
\<close>

theorem process_requires_name:
  "name_field a = [] \<Longrightarrow>
   process E a h = (Inl (RuntimeError ''Name is a required field''), h, [])"
  by (simp add: process_def throw_def)

theorem process_requires_name_witness:
  "name_field unnamed_app = [] \<and>
   process demo unnamed_app () = (Inl (RuntimeError ''Name is a required field''), (), [])"
  using process_requires_name [of unnamed_app demo "()"]
  by (simp add: unnamed_app_def)

text \<open>
  C2, at a Houdini asset with no nParticle connected (\<^verbatim>\<open>hda3\<close> of the example scene, where
  \<^verbatim>\<open>listConnections\<close> answers \<^verbatim>\<open>None\<close>): \<open>get_particle_system\<close> does not reach its assert. The
  list comprehension iterates over \<^verbatim>\<open>None\<close> and the function ends with a TypeError, where
  the claim has an AssertionError for zero nParticles.
\<close>

theorem get_particle_system_no_nparticle:
  "get_particle_system demo ''hda3'' () =
     (Inl TypeError, (),
      [LEvent (ListConnections ''hda3''
                 (no_flags\<lparr>destination := True, node_type := Some ''nParticle'',
                            shapes := True\<rparr>)) (Inr None),
       LEvent (ListRelatives ''hda3'' (Some ''nParticle'')) (Inr None)])
   \<and> \<not> is_assertion (fst (get_particle_system demo ''hda3'' ()))"
  by (simp add: get_particle_system_def demo_defs cmds_list_def and_then_def iterable_def
        throw_def is_assertion_def)

text \<open>
  C3, as the claim states it, fails: \<open>get_shape_transforms\<close> on a node that is not a
  \<^verbatim>\<open>houdiniAsset\<close> (the instancer of the example scene) ends with the explicitly raised
  \<^verbatim>\<open>ValueError("Wrong node type")\<close>, which is not an assertion error.
\<close>

theorem get_shape_transforms_guard_is_not_assert:
  "fst (get_shape_transforms demo ''hda1_inst'' ()) = Inl (ValueError ''Wrong node type'')
   \<and> \<not> is_assertion (fst (get_shape_transforms demo ''hda1_inst'' ()))"
  by (simp add: get_shape_transforms_def demo_defs cmds_str_def and_then_def throw_def
        is_assertion_def)

text \<open>
  C3, amended. The guards of the scene-graph operations are a mix of explicit raises and
  asserts:
  \<^item> \<open>get_shape_transforms\<close> raises \<^verbatim>\<open>ValueError("Wrong node type")\<close> when the node is not a
    \<^verbatim>\<open>houdiniAsset\<close>;
  \<^item> \<open>get_input_hierarchy\<close> raises \<^verbatim>\<open>ValueError\<close> when the node is not an \<^verbatim>\<open>instancer\<close>;
  \<^item> \<open>replicate\<close> raises \<^verbatim>\<open>RuntimeError\<close> for an entry without \<^verbatim>\<open>particle_system\<close>;
  \<^item> \<open>get_particle_system\<close> asserts that the nParticles found (both queries answering
    lists) are exactly one;
  \<^item> \<open>replicate\<close> asserts that exactly one plug is connected to \<^verbatim>\<open>cacheArrayData\<close> and that
    the duplication returned exactly one node;
  \<^item> \<open>update_asset\<close> asserts that an instancer outside the asset's hierarchy was found.
\<close>

theorem guards_of_operations:
  "(str_call E (NodeType n) h = (Inr t, h1) \<and> t \<noteq> ''houdiniAsset'' \<longrightarrow>
      fst (get_shape_transforms E n h) = Inl (ValueError ''Wrong node type''))
   \<and> (str_call E (NodeType n) h = (Inr t, h1) \<and> t \<noteq> ''instancer'' \<longrightarrow>
      fst (get_input_hierarchy E n h) =
        Inl (ValueError (''Given node is not of type '' @ [CHR 0x27] @ ''instancer''
               @ [CHR 0x27])))
   \<and> (particle_system m = None \<longrightarrow>
      fst (replicate_entry E name nucleus grp kw i (asset, m) h) =
        Inl (RuntimeError (''Incomplete mapping of asset '' @ [CHR 0x27] @ asset @ [CHR 0x27]
               @ '', missing particle_system'')))
   \<and> (list_call E (ListConnections n
          (no_flags\<lparr>destination := True, node_type := Some ''nParticle'', shapes := True\<rparr>)) h
        = (Inr (Some cs), h1)
      \<and> list_call E (ListRelatives n (Some ''nParticle'')) h1 = (Inr (Some ds), h2)
      \<and> length (iter_set E (filter (\<lambda>p. p \<in> set ds) cs)) \<noteq> 1 \<longrightarrow>
      is_assertion (fst (get_particle_system E n h)))
   \<and> (particle_system m = Some ((psys, attrs) # others)
      \<and> list_call E (ListConnections (psys @ ''.cacheArrayData'') (no_flags\<lparr>plugs := True\<rparr>)) h
        = (Inr r, h1)
      \<and> length (or_empty r) \<noteq> 1 \<longrightarrow>
      fst (replicate_entry E name nucleus grp kw i (asset, m) h)
        = Inl (AssertionError ''This is a bug''))
   \<and> (particle_system m = Some ((psys, attrs) # others)
      \<and> list_call E (ListConnections (psys @ ''.cacheArrayData'') (no_flags\<lparr>plugs := True\<rparr>)) h
        = (Inr r, h1)
      \<and> length (or_empty r) = 1
      \<and> list_call E (Duplicate psys (name @ py_03d i @ ''_PART'')) h1
        = (Inr (Some new_systems), h2)
      \<and> length new_systems \<noteq> 1 \<longrightarrow>
      is_assertion (fst (replicate_entry E name nucleus grp kw i (asset, m) h)))
   \<and> (get_shape_transforms E asset h = (Inr before, h1, t1)
      \<and> list_call E (ListRelatives asset None) h1 = (Inr (Some asset_hierarchy), h2)
      \<and> iter_set E before = transform # rest
      \<and> list_call E (ListConnections transform
            (no_flags\<lparr>destination := True, node_type := Some ''instancer''\<rparr>)) h2 = (Inr r, h3)
      \<and> filter (\<lambda>i. i \<notin> set asset_hierarchy) (or_empty r) = [] \<longrightarrow>
      fst (update_asset E asset h) = Inl (AssertionError ''This is a bug''))"
proof (intro conjI impI)
  assume "str_call E (NodeType n) h = (Inr t, h1) \<and> t \<noteq> ''houdiniAsset''"
  then show "fst (get_shape_transforms E n h) = Inl (ValueError ''Wrong node type'')"
    by (simp add: get_shape_transforms_wrong_type)
next
  assume "str_call E (NodeType n) h = (Inr t, h1) \<and> t \<noteq> ''instancer''"
  then show "fst (get_input_hierarchy E n h) =
      Inl (ValueError (''Given node is not of type '' @ [CHR 0x27] @ ''instancer'' @ [CHR 0x27]))"
    by (simp add: get_input_hierarchy_wrong_type)
next
  assume "particle_system m = None"
  then show "fst (replicate_entry E name nucleus grp kw i (asset, m) h) =
      Inl (RuntimeError (''Incomplete mapping of asset '' @ [CHR 0x27] @ asset @ [CHR 0x27]
             @ '', missing particle_system''))"
    by (simp add: replicate_entry_missing_particle_system)
next
  assume "list_call E (ListConnections n
          (no_flags\<lparr>destination := True, node_type := Some ''nParticle'', shapes := True\<rparr>)) h
        = (Inr (Some cs), h1)
      \<and> list_call E (ListRelatives n (Some ''nParticle'')) h1 = (Inr (Some ds), h2)
      \<and> length (iter_set E (filter (\<lambda>p. p \<in> set ds) cs)) \<noteq> 1"
  then show "is_assertion (fst (get_particle_system E n h))"
    using get_particle_system_assert [of E n h cs h1 ds h2] by blast
next
  assume "particle_system m = Some ((psys, attrs) # others)
      \<and> list_call E (ListConnections (psys @ ''.cacheArrayData'') (no_flags\<lparr>plugs := True\<rparr>)) h
        = (Inr r, h1)
      \<and> length (or_empty r) \<noteq> 1"
  then show "fst (replicate_entry E name nucleus grp kw i (asset, m) h)
        = Inl (AssertionError ''This is a bug'')"
    using replicate_entry_plug_assert [of m psys attrs others E h r h1] by blast
next
  assume "particle_system m = Some ((psys, attrs) # others)
      \<and> list_call E (ListConnections (psys @ ''.cacheArrayData'') (no_flags\<lparr>plugs := True\<rparr>)) h
        = (Inr r, h1)
      \<and> length (or_empty r) = 1
      \<and> list_call E (Duplicate psys (name @ py_03d i @ ''_PART'')) h1
        = (Inr (Some new_systems), h2)
      \<and> length new_systems \<noteq> 1"
  then show "is_assertion (fst (replicate_entry E name nucleus grp kw i (asset, m) h))"
    using replicate_entry_duplicate_assert [of m psys attrs others E h r h1 name i new_systems h2]
    by blast
next
  assume "get_shape_transforms E asset h = (Inr before, h1, t1)
      \<and> list_call E (ListRelatives asset None) h1 = (Inr (Some asset_hierarchy), h2)
      \<and> iter_set E before = transform # rest
      \<and> list_call E (ListConnections transform
            (no_flags\<lparr>destination := True, node_type := Some ''instancer''\<rparr>)) h2 = (Inr r, h3)
      \<and> filter (\<lambda>i. i \<notin> set asset_hierarchy) (or_empty r) = []"
  then show "fst (update_asset E asset h) = Inl (AssertionError ''This is a bug'')"
    using update_asset_assert [of E asset h before h1 t1 asset_hierarchy h2 transform rest r h3]
    by blast
qed

lemma py_03d_0: "py_03d 0 = ''000''"
  by code_simp

theorem guards_of_operations_witness:
  "fst (get_shape_transforms demo ''hda1_inst'' ()) = Inl (ValueError ''Wrong node type'')
   \<and> fst (get_input_hierarchy demo ''hda1'' ()) =
       Inl (ValueError (''Given node is not of type '' @ [CHR 0x27] @ ''instancer''
              @ [CHR 0x27]))
   \<and> fst (replicate_entry demo ''fx_'' ''nucleus1'' ''fx_001_GRP'' [] 0
            (''hda1'', \<lparr>particle_system = None, hierarchy = None\<rparr>) ()) =
       Inl (RuntimeError (''Incomplete mapping of asset '' @ [CHR 0x27] @ ''hda1''
              @ [CHR 0x27] @ '', missing particle_system''))
   \<and> is_assertion (fst (get_particle_system demo ''hda2'' ()))
   \<and> fst (replicate_entry demo ''fx_'' ''nucleus1'' ''fx_001_GRP'' [] 0
            (''hda1'', \<lparr>particle_system = Some [(''loose'', None)], hierarchy = None\<rparr>) ()) =
       Inl (AssertionError ''This is a bug'')
   \<and> is_assertion (fst (replicate_entry demo ''fx_'' ''nucleus1'' ''fx_001_GRP'' [] 0
            (''hda1'', \<lparr>particle_system = Some [(''hda1_part'', None)], hierarchy = None\<rparr>) ()))
   \<and> fst (update_asset demo ''hda1'' ()) = Inl (AssertionError ''This is a bug'')"
proof (intro conjI)
  show "fst (get_shape_transforms demo ''hda1_inst'' ()) = Inl (ValueError ''Wrong node type'')"
    using guards_of_operations [where E = demo and n = "''hda1_inst''" and h = "()"
        and t = "''instancer''" and ?h1.0 = "()", THEN conjunct1]
    by (simp add: demo_defs)
next
  show "fst (get_input_hierarchy demo ''hda1'' ()) =
       Inl (ValueError (''Given node is not of type '' @ [CHR 0x27] @ ''instancer''
              @ [CHR 0x27]))"
    using guards_of_operations [where E = demo and n = "''hda1''" and h = "()"
        and t = "''houdiniAsset''" and ?h1.0 = "()", THEN conjunct2, THEN conjunct1]
    by (simp add: demo_defs)
next
  show "fst (replicate_entry demo ''fx_'' ''nucleus1'' ''fx_001_GRP'' [] 0
            (''hda1'', \<lparr>particle_system = None, hierarchy = None\<rparr>) ()) =
       Inl (RuntimeError (''Incomplete mapping of asset '' @ [CHR 0x27] @ ''hda1''
              @ [CHR 0x27] @ '', missing particle_system''))"
    using guards_of_operations [where E = demo and h = "()"
        and m = "\<lparr>particle_system = None, hierarchy = None\<rparr>" and asset = "''hda1''"
        and name = "''fx_''" and nucleus = "''nucleus1''" and grp = "''fx_001_GRP''"
        and kw = "[]" and i = 0,
        THEN conjunct2, THEN conjunct2, THEN conjunct1]
    by simp
next
  show "is_assertion (fst (get_particle_system demo ''hda2'' ()))"
    using guards_of_operations [where E = demo and n = "''hda2''" and h = "()"
        and cs = "[''p1Shape'', ''p2Shape'']" and ds = "[''p1Shape'', ''p2Shape'']"
        and ?h1.0 = "()" and ?h2.0 = "()",
        THEN conjunct2, THEN conjunct2, THEN conjunct2, THEN conjunct1]
    by (simp add: demo_defs)
next
  show "fst (replicate_entry demo ''fx_'' ''nucleus1'' ''fx_001_GRP'' [] 0
            (''hda1'', \<lparr>particle_system = Some [(''loose'', None)], hierarchy = None\<rparr>) ()) =
       Inl (AssertionError ''This is a bug'')"
    using guards_of_operations [where E = demo and h = "()"
        and m = "\<lparr>particle_system = Some [(''loose'', None)], hierarchy = None\<rparr>"
        and asset = "''hda1''" and psys = "''loose''" and attrs = None and others = "[]"
        and r = None and ?h1.0 = "()"
        and name = "''fx_''" and nucleus = "''nucleus1''" and grp = "''fx_001_GRP''"
        and kw = "[]" and i = 0,
        THEN conjunct2, THEN conjunct2, THEN conjunct2, THEN conjunct2, THEN conjunct1]
    by (simp add: demo_defs or_empty_def)
next
  show "is_assertion (fst (replicate_entry demo ''fx_'' ''nucleus1'' ''fx_001_GRP'' [] 0
            (''hda1'', \<lparr>particle_system = Some [(''hda1_part'', None)], hierarchy = None\<rparr>) ()))"
    using guards_of_operations [where E = demo and h = "()"
        and m = "\<lparr>particle_system = Some [(''hda1_part'', None)], hierarchy = None\<rparr>"
        and asset = "''hda1''" and psys = "''hda1_part''" and attrs = None and others = "[]"
        and r = "Some [''hda1.outputPartArrayData'']" and ?h1.0 = "()" and ?h2.0 = "()"
        and new_systems = "[''fx_000_PART'', ''fx_000_PARTShape'']"
        and name = "''fx_''" and nucleus = "''nucleus1''" and grp = "''fx_001_GRP''"
        and kw = "[]" and i = 0,
        THEN conjunct2, THEN conjunct2, THEN conjunct2, THEN conjunct2, THEN conjunct2,
        THEN conjunct1]
    by (simp add: demo_defs or_empty_def py_03d_0)
next
  show "fst (update_asset demo ''hda1'' ()) = Inl (AssertionError ''This is a bug'')"
    using guards_of_operations [where E = demo and h = "()" and asset = "''hda1''"
        and before = "[''cube'', ''ball'']" and ?h1.0 = "()" and ?h2.0 = "()" and ?h3.0 = "()"
        and ?t1.0 = "[SEvent (NodeType ''hda1'') (Inr ''houdiniAsset''),
                     LEvent (ListConnections ''hda1''
                       (no_flags\<lparr>destination := True, node_type := Some ''mesh''\<rparr>))
                       (Inr (Some [''cube'', ''ball'']))]"
        and asset_hierarchy = "[''hda1_part'', ''hda1_partShape'', ''hda1_inst'']"
        and transform = "''cube''" and rest = "[''ball'']" and r = None,
        THEN conjunct2, THEN conjunct2, THEN conjunct2, THEN conjunct2, THEN conjunct2,
        THEN conjunct2]
    by (simp add: demo_defs or_empty_def get_shape_transforms_def cmds_str_def cmds_list_def
          and_then_def iterable_def ok_def)
qed

subsection \<open>What a computation can emit\<close>

lemma emitsD: "emits P m \<Longrightarrow> m h = (r, h1, t) \<Longrightarrow> list_all P t"
  by (auto simp: emits_def dest: spec [of _ h])

lemma emits_mono: "emits P m \<Longrightarrow> (\<And>ev. P ev \<Longrightarrow> Q ev) \<Longrightarrow> emits Q m"
  by (auto simp: emits_def list_all_iff)

lemma emits_ok [intro!]: "emits P (ok x)"
  by (simp add: emits_def ok_def)

lemma emits_throw [intro!]: "emits P (throw e)"
  by (simp add: emits_def throw_def)

lemma emits_lift [intro!]: "emits P (lift r)"
  by (simp add: emits_def lift_def)

lemma emits_and_then [intro!]:
  "emits P m \<Longrightarrow> (\<And>x. emits P (f x)) \<Longrightarrow> emits P (and_then m f)"
  by (auto simp: emits_def and_then_def split: prod.splits sum.splits)
     (metis snd_conv)+

lemma emits_attempt [intro!]: "emits P m \<Longrightarrow> emits P (attempt m)"
  by (auto simp: emits_def attempt_def split: prod.splits) (metis snd_conv)

lemma emits_except_runtime_pass [intro!]: "emits P m \<Longrightarrow> emits P (except_runtime_pass m)"
  by (auto simp: emits_def except_runtime_pass_def split: prod.splits sum.splits error.splits)
     (metis snd_conv)+

lemma emits_cmds_list [intro!]: "(\<And>r. P (LEvent c r)) \<Longrightarrow> emits P (cmds_list E c)"
  by (simp add: emits_def cmds_list_def split: prod.splits)

lemma emits_cmds_str [intro!]: "(\<And>r. P (SEvent c r)) \<Longrightarrow> emits P (cmds_str E c)"
  by (simp add: emits_def cmds_str_def split: prod.splits)

lemma emits_cmds_unit [intro!]: "(\<And>r. P (UEvent c r)) \<Longrightarrow> emits P (cmds_unit E c)"
  by (simp add: emits_def cmds_unit_def split: prod.splits)

lemma emits_for_each [intro!]: "(\<And>x. emits P (f x)) \<Longrightarrow> emits P (for_each f xs)"
  by (induction xs) auto

lemma emits_iterable [intro!]: "emits P (iterable v)"
  by (auto simp: iterable_def split: option.splits)

lemma emits_filter_in [intro!]: "emits P (filter_in keep xs ys)"
  by (auto simp: filter_in_def split: option.splits list.splits)

lemma emits_get_houdini_assets: "emits is_query (get_houdini_assets E selected)"
  by (auto simp: get_houdini_assets_def is_query_def)

lemma emits_get_particle_system: "emits is_query (get_particle_system E a)"
  by (auto simp: get_particle_system_def is_query_def Let_def)

lemma emits_get_particle_attributes: "emits is_query (get_particle_attributes E a)"
  by (auto simp: get_particle_attributes_def is_query_def)

lemma emits_get_instancers: "emits is_query (get_instancers E a)"
  by (auto simp: get_instancers_def is_query_def)

lemma emits_get_input_hierarchy: "emits is_query (get_input_hierarchy E a)"
  by (auto simp: get_input_hierarchy_def is_query_def)

lemma emits_get_shape_transforms: "emits is_query (get_shape_transforms E a)"
  by (auto simp: get_shape_transforms_def is_query_def)

lemma emits_input_hierarchies: "emits is_query (input_hierarchies E insts)"
  by (induction insts) (auto intro: emits_get_input_hierarchy)

lemma emits_map_houdini_asset: "emits is_query (map_houdini_asset E asset)"
  unfolding map_houdini_asset_def
  by (intro emits_and_then emits_ok emits_iterable emits_get_instancers emits_input_hierarchies
        emits_get_particle_system emits_get_particle_attributes)

lemma emits_particle_instancer:
  "emits (entry_event nucleus grp kw) (particle_instancer E sys n objs kw)"
  by (auto simp: particle_instancer_def entry_event_def)

lemma emits_replicate_entry:
  "emits (entry_event nucleus grp kw) (replicate_entry E name nucleus grp kw i item)"
  unfolding replicate_entry_def duplicate_entry_def wire_entry_def
  by (auto split: prod.splits option.splits list.splits intro!: emits_particle_instancer
        simp: entry_event_def)

lemma emits_replicate_loop:
  "emits (entry_event nucleus grp kw) (replicate_loop E name nucleus grp kw i items)"
  by (induction items arbitrary: i) (auto intro: emits_replicate_entry)

subsection \<open>The transcript of a run of \<open>replicate\<close> that returns\<close>



lemma cmds_str_InrD: "cmds_str E c h = (Inr x, h1, t) \<Longrightarrow> t = [SEvent c (Inr x)]"
  by (auto simp: cmds_str_def split: prod.splits)









lemma demo_replicate_run:
  "replicate_asset demo ''fx'' demo_mapping None () = (Inr True, (), demo_replicate_transcript)"
  by (simp add: replicate_asset_def replicate_with_nucleus_def choose_nucleus_def
        replicate_entry_def duplicate_entry_def wire_entry_def particle_instancer_def
        except_runtime_pass_def demo_mapping_def demo_replicate_transcript_def demo_defs
        and_then_def cmds_list_def cmds_str_def cmds_unit_def iterable_def ok_def throw_def
        or_empty_def py_03d_0)


lemma emits_choose_nucleus:
  "(\<And>r. P (SEvent (CreateNode ''nucleus'') r)) \<Longrightarrow> emits P (choose_nucleus E nuclea)"
  by (auto simp: choose_nucleus_def split: list.splits)

lemma emits_replicate_with_nucleus:
  assumes "\<And>r. P (SEvent (UniqueName (name @ ''_'') ''%03d'' ''_GRP'') r)"
      and "\<And>g r. P (SEvent (Group g) r)"
      and "\<And>grp ev. entry_event nucleus grp kw ev \<Longrightarrow> P ev"
  shows "emits P (replicate_with_nucleus E name am kw nucleus)"
  unfolding replicate_with_nucleus_def
  by (intro emits_and_then emits_ok emits_cmds_str assms(1,2)
        emits_mono [OF emits_replicate_loop assms(3)])

















lemma entry_event_mel:
  "entry_event nucleus grp kw (UEvent (MelEval cmd) r) \<Longrightarrow> cmd = ''assignNSolver '' @ nucleus"
  by (simp add: entry_event_def)

lemma entry_event_not_create: "\<not> entry_event nucleus grp kw (SEvent (CreateNode t) r)"
  by (simp add: entry_event_def)








subsection \<open>The attribute mapping of the dialog\<close>

lemma is_query_instancer_kwargs: "is_query ev \<Longrightarrow> instancer_kwargs kw ev"
  by (auto simp: is_query_def instancer_kwargs_def split: event.splits scall.splits)

lemma entry_event_instancer_kwargs: "entry_event nucleus grp kw ev \<Longrightarrow> instancer_kwargs kw ev"
  by (auto simp: entry_event_def instancer_kwargs_def split: event.splits scall.splits)

lemma emits_replicate_asset_kwargs:
  "emits (instancer_kwargs (or_empty attr)) (replicate_asset E name am attr)"
  unfolding replicate_asset_def
  by (intro emits_and_then emits_cmds_list emits_choose_nucleus emits_replicate_with_nucleus)
     (auto simp: instancer_kwargs_def dest: entry_event_instancer_kwargs)

lemma emits_process:
  "emits (instancer_kwargs (attribute_mapping_of (mapping_data a))) (process E a)"
proof -
  have "emits (instancer_kwargs (attribute_mapping_of (mapping_data a)))
          (replicate_asset E (name_field a) am (Some (attribute_mapping_of (mapping_data a))))"
    for am
    using emits_replicate_asset_kwargs [of "Some (attribute_mapping_of (mapping_data a))" E
        "name_field a" am]
    by (simp add: or_empty_def)
  then show ?thesis
    unfolding process_def
    by (auto intro!: emits_mono [OF emits_map_houdini_asset is_query_instancer_kwargs])
qed

lemma set_attribute_mapping_of:
  "set (attribute_mapping_of md) =
     {(s, current_text p) | s p.
        (s, p) \<in> set md \<and> current_text p \<in> set (item_texts p) \<and> current_text p \<noteq> ''''}"
  by (induction md)
     (auto simp: attribute_mapping_of_def get_valid_value_def split: option.splits if_splits)

text \<open>
  C4. The mapping \<open>process\<close> builds holds exactly the pairs (source, text) for the sources of
  \<open>mapping_data\<close> whose picker's current text is one of the picker's items and is not the
  empty placeholder (\<open>get_valid_value\<close> is then neither \<^verbatim>\<open>None\<close> nor \<^verbatim>\<open>""\<close>); and every
  \<^verbatim>\<open>particleInstancer\<close> call of the run, which is where \<open>replicate\<close> forwards its
  \<open>attribute_mapping\<close>, carries that mapping as its keyword arguments.
\<close>

theorem process_forwards_chosen_attributes:
  assumes "process E a h = (res, h', tr)"
  shows "set (attribute_mapping_of (mapping_data a)) =
           {(s, current_text p) | s p.
              (s, p) \<in> set (mapping_data a) \<and> current_text p \<in> set (item_texts p)
                \<and> current_text p \<noteq> ''''}
     \<and> (\<forall>sys n objs kw r.
           SEvent (ParticleInstancer sys n objs kw) r \<in> set tr \<longrightarrow>
           kw = attribute_mapping_of (mapping_data a))"
proof
  show "set (attribute_mapping_of (mapping_data a)) =
           {(s, current_text p) | s p.
              (s, p) \<in> set (mapping_data a) \<and> current_text p \<in> set (item_texts p)
                \<and> current_text p \<noteq> ''''}"
    by (rule set_attribute_mapping_of)
next
  have "list_all (instancer_kwargs (attribute_mapping_of (mapping_data a))) tr"
    using emitsD [OF emits_process assms] .
  then show "\<forall>sys n objs kw r.
           SEvent (ParticleInstancer sys n objs kw) r \<in> set tr \<longrightarrow>
           kw = attribute_mapping_of (mapping_data a)"
    by (auto simp: list_all_iff instancer_kwargs_def)
qed

lemma chosen_mapping:
  "attribute_mapping_of (mapping_data chosen_app) = [(''scale'', ''radiusPP'')]"
  by (simp add: attribute_mapping_of_def chosen_app_def get_valid_value_def)

lemma chosen_run:
  "fst (process demo chosen_app ()) = Inr ()
   \<and> SEvent (ParticleInstancer ''fx_000_PART'' ''fx_000_INST'' [''cube'', ''ball'']
               [(''scale'', ''radiusPP'')]) (Inr ''fx_000_INST'')
       \<in> set (snd (snd (process demo chosen_app ())))"
  by (simp add: process_def attribute_mapping_of_def get_valid_value_def map_houdini_asset_def get_instancers_def
        get_input_hierarchy_def get_particle_system_def get_particle_attributes_def
        replicate_asset_def replicate_with_nucleus_def choose_nucleus_def
        replicate_entry_def duplicate_entry_def wire_entry_def particle_instancer_def
        except_runtime_pass_def chosen_app_def demo_defs filter_in_def
        and_then_def cmds_list_def cmds_str_def cmds_unit_def iterable_def ok_def throw_def
        or_empty_def py_03d_0)

theorem process_forwards_chosen_attributes_witness:
  "fst (process demo chosen_app ()) = Inr ()
   \<and> set (attribute_mapping_of (mapping_data chosen_app)) = {(''scale'', ''radiusPP'')}
   \<and> SEvent (ParticleInstancer ''fx_000_PART'' ''fx_000_INST'' [''cube'', ''ball'']
               (attribute_mapping_of (mapping_data chosen_app))) (Inr ''fx_000_INST'')
       \<in> set (snd (snd (process demo chosen_app ())))"
proof -
  have run: "process demo chosen_app ()
      = (fst (process demo chosen_app ()), (), snd (snd (process demo chosen_app ())))"
    by (cases "process demo chosen_app ()") simp
  from process_forwards_chosen_attributes [OF run] chosen_run
  have "[(''scale'', ''radiusPP'')] = attribute_mapping_of (mapping_data chosen_app)"
    by blast
  then have "attribute_mapping_of (mapping_data chosen_app) = [(''scale'', ''radiusPP'')]"
    by (rule sym)
  with chosen_run show ?thesis by simp
qed

subsection \<open>Rebuilding the attribute mapping\<close>


lemma create_pickers_frame [simp]:
  "mapping_layout (create_pickers srcs t a) = mapping_layout a"
  "selection (create_pickers srcs t a) = selection a"
  "from_selection (create_pickers srcs t a) = from_selection a"
  "name_field (create_pickers srcs t a) = name_field a"
  "next_id (create_pickers srcs t a) = next_id a + length srcs"
  by (induction srcs arbitrary: a) simp_all


lemma fresh_box_mono: "fresh_box n w \<Longrightarrow> m \<le> n \<Longrightarrow> fresh_box m w"
  by (simp add: fresh_box_def)










subsection \<open>The context manager\<close>

lemma is_query_simps [simp]:
  "is_query (LEvent (ListConnections n f) r)"
  "is_query (LEvent (ListRelatives n t) r)"
  "is_query (LEvent (Ls sel ty) r)"
  "is_query (LEvent (ParticleDynamicAttrList n) r)"
  "is_query (SEvent (NodeType n) rs)"
  "\<not> is_query (UEvent c ru)"
  by (simp_all add: is_query_def)

lemma emits_for_each_set:
  "(\<And>x. x \<in> set xs \<Longrightarrow> emits P (f x)) \<Longrightarrow> emits P (for_each f xs)"
  by (induction xs) auto

lemma emits_collect_instancers: "emits is_query (collect_instancers E insts)"
  by (induction insts) (auto split: sum.splits prod.splits)

lemma emits_collect_nparticles: "emits is_query (collect_nparticles E nps)"
  by (induction nps)
     (auto split: sum.splits prod.splits option.splits intro!: emits_collect_instancers)

lemma emits_collect_connections: "emits is_query (collect_connections E c d)"
  unfolding collect_connections_def
  by (auto split: sum.splits intro!: emits_collect_nparticles)

lemma never_raisesD: "never_raises m \<Longrightarrow> m h = (r, h1, t) \<Longrightarrow> \<exists>x. r = Inr x"
  by (auto simp: never_raises_def dest: spec [of _ h])

lemma never_raises_and_then [intro!]:
  assumes "never_raises m" and "\<And>x. never_raises (f x)"
  shows "never_raises (and_then m f)"
  unfolding never_raises_def
proof
  fix h
  from assms(1) obtain x where "fst (m h) = Inr x" by (auto simp: never_raises_def)
  then obtain h1 t1 where m: "m h = (Inr x, h1, t1)" by (cases "m h") auto
  from assms(2) obtain y where "fst (f x h1) = Inr y" by (auto simp: never_raises_def)
  with m show "\<exists>y. fst (and_then m f h) = Inr y"
    by (auto simp: and_then_def split: prod.splits)
qed

lemma never_raises_attempt [intro!]: "never_raises (attempt m)"
  by (simp add: never_raises_def attempt_def split: prod.splits)

lemma never_raises_ok [intro!]: "never_raises (ok x)"
  by (simp add: never_raises_def ok_def)

lemma never_raises_collect_instancers: "never_raises (collect_instancers E insts)"
  by (induction insts) (auto split: sum.splits prod.splits)

lemma never_raises_collect_nparticles: "never_raises (collect_nparticles E nps)"
  by (induction nps)
     (auto split: sum.splits prod.splits option.splits intro!: never_raises_collect_instancers)

lemma never_raises_collect_connections: "never_raises (collect_connections E c d)"
  unfolding collect_connections_def
  by (auto split: sum.splits intro!: never_raises_collect_nparticles)

lemma entry_phase_event_query: "is_query ev \<Longrightarrow> entry_phase_event cs ev"
  by (auto simp: entry_phase_event_def is_query_def split: event.splits)

lemma emits_disconnect_all: "emits (entry_phase_event cs) (disconnect_all E cs)"
  unfolding disconnect_all_def
  by (rule emits_for_each_set) (auto simp: entry_phase_event_def)

lemma reconnect_all_succeeded:
  "reconnect_all E cs h = (r, h1, t) \<Longrightarrow> list_all succeeded t \<Longrightarrow>
   t = reconnections cs \<and> r = Inr ()"
proof (induction cs arbitrary: h r h1 t)
  case Nil
  then show ?case by (simp add: reconnect_all_def reconnections_def ok_def)
next
  case (Cons c cs)
  obtain src dst where c: "c = (src, dst)" by (cases c)
  obtain r0 h0 where u: "unit_call E (ConnectAttr src dst True) h = (r0, h0)"
    by (cases "unit_call E (ConnectAttr src dst True) h")
  show ?case
  proof (cases r0)
    case (Inl e)
    with Cons.prems c u show ?thesis
      by (auto simp: reconnect_all_def and_then_def cmds_unit_def succeeded_def)
  next
    case (Inr x)
    obtain r2 h2 t2 where rest: "reconnect_all E cs h0 = (r2, h2, t2)"
      by (cases "reconnect_all E cs h0")
    with Cons.prems c u Inr have
      t: "t = UEvent (ConnectAttr src dst True) (Inr ()) # t2" and r: "r = r2"
      by (auto simp: reconnect_all_def and_then_def cmds_unit_def)
    with Cons.prems(2) have "list_all succeeded t2" by simp
    from Cons.IH [OF rest this] t r c show ?thesis
      by (simp add: reconnections_def)
  qed
qed


lemma maintain_connections_run:
  assumes "maintain_connections E asset body h = (res, h', tr)"
  shows "\<exists>cs entry mid exit hx rx.
           tr = entry @ mid @ exit
         \<and> list_all (entry_phase_event cs) entry
         \<and> (mid = [] \<or> (\<exists>hb. mid = snd (snd (body hb))
                            \<and> (rx = Inr () \<longrightarrow> res = fst (body hb))))
         \<and> (exit = [] \<and> cs = [] \<and> mid = [] \<or> reconnect_all E cs hx = (rx, h', exit))"
proof -
  let ?q1 = "ListConnections asset (no_flags\<lparr>destination := True,
      node_type := Some ''nParticle'', exactType := True, shapes := True\<rparr>)"
  let ?q2 = "ListRelatives asset None"
  obtain r1 h1 where q1: "list_call E ?q1 h = (r1, h1)" by (cases "list_call E ?q1 h")
  show ?thesis
  proof (cases r1)
    case (Inl e)
    with assms q1 have "tr = [LEvent ?q1 (Inl e)]"
      by (simp add: maintain_connections_def and_then_def cmds_list_def)
    then show ?thesis
      by (intro exI [of _ "[]"] exI [of _ tr]) (simp add: entry_phase_event_def)
  next
    case c: (Inr connected)
    obtain r2 h2 where q2: "list_call E ?q2 h1 = (r2, h2)" by (cases "list_call E ?q2 h1")
    show ?thesis
    proof (cases r2)
      case (Inl e)
      with assms q1 c q2 have "tr = [LEvent ?q1 (Inr connected), LEvent ?q2 (Inl e)]"
        by (simp add: maintain_connections_def and_then_def cmds_list_def)
      then show ?thesis
        by (intro exI [of _ "[]"] exI [of _ tr]) (simp add: entry_phase_event_def)
    next
      case d: (Inr descendents)
      obtain rc h3 t3 where col: "collect_connections E connected descendents h2 = (rc, h3, t3)"
        by (cases "collect_connections E connected descendents h2")
      from never_raisesD [OF never_raises_collect_connections col] obtain cs err where
        rc: "rc = Inr (cs, err)" by auto
      have t3: "list_all (entry_phase_event cs) t3"
        using emitsD [OF emits_collect_connections col]
        by (auto simp: list_all_iff intro: entry_phase_event_query)
      let ?guarded = "case err of Some e \<Rightarrow> throw e
                  | None \<Rightarrow> and_then (disconnect_all E cs) (\<lambda>_. body)"
      obtain ro h4 t4 where tr4: "?guarded h3 = (ro, h4, t4)" by (cases "?guarded h3")
      obtain rx h5 t5 where fin: "reconnect_all E cs h4 = (rx, h5, t5)"
        by (cases "reconnect_all E cs h4")
      from assms q1 c q2 d col rc tr4 fin have
        tr: "tr = [LEvent ?q1 (Inr connected), LEvent ?q2 (Inr descendents)] @ t3 @ t4 @ t5"
        and h': "h' = h5" and res: "rx = Inr () \<longrightarrow> res = ro"
        by (auto simp: maintain_connections_def and_then_def cmds_list_def attempt_def lift_def
              split: sum.splits)
      have "\<exists>td mid. t4 = td @ mid \<and> list_all (entry_phase_event cs) td
          \<and> (mid = [] \<or> (\<exists>hb. mid = snd (snd (body hb)) \<and> ro = fst (body hb)))"
      proof (cases err)
        case (Some e)
        with tr4 have "t4 = []" by (simp add: throw_def)
        then show ?thesis by simp
      next
        case None
        obtain rd hd td where dis: "disconnect_all E cs h3 = (rd, hd, td)"
          by (cases "disconnect_all E cs h3")
        have td: "list_all (entry_phase_event cs) td"
          using emitsD [OF emits_disconnect_all dis] .
        show ?thesis
        proof (cases rd)
          case (Inl e)
          with tr4 None dis have "t4 = td" by (simp add: and_then_def)
          with td show ?thesis by (intro exI [of _ td] exI [of _ "[]"]) simp
        next
          case (Inr u)
          with tr4 None dis have "t4 = td @ snd (snd (body hd))" "ro = fst (body hd)"
            by (auto simp: and_then_def split: prod.splits)
          with td show ?thesis
            by (intro exI [of _ td] exI [of _ "snd (snd (body hd))"]) auto
        qed
      qed
      then obtain td mid where
        t4: "t4 = td @ mid" and td: "list_all (entry_phase_event cs) td" and
        mid: "mid = [] \<or> (\<exists>hb. mid = snd (snd (body hb)) \<and> ro = fst (body hb))"
        by blast
      show ?thesis
        using tr t4 t3 td mid fin h' res
        by (intro exI [of _ cs]
              exI [of _ "[LEvent ?q1 (Inr connected), LEvent ?q2 (Inr descendents)] @ t3 @ td"]
              exI [of _ mid] exI [of _ t5] exI [of _ h4] exI [of _ rx])
           (auto simp: entry_phase_event_def)
    qed
  qed
qed

text \<open>
  C8, at the replicated scene, with the sync of the asset as the body (what \<open>update_asset\<close>
  runs). The context manager disconnects the two connections into the instancer; the sync
  rebuilds the asset without its cube; on exit \<^verbatim>\<open>connectAttr\<close> raises for the cube's
  connection, which ends the loop of the \<^verbatim>\<open>finally\<close> block, and the connection of the ball,
  whose node is still there, is never made again: the instancer is left without a connection,
  where the claim (and the docstring, "Keep all connection of the asset content to replicated
  nParticle") has every disconnected connection restored.
\<close>

theorem maintain_connections_loses_connection:
  "fst (maintain_connections sync_env ''hda1'' (sync_body sync_env ''hda1'') replicated_scene)
     = Inl (RuntimeError ''No object matches name'')
   \<and> UEvent (DisconnectAttr ''hda1_ball.matrix'' ''fx_000_INST.inputHierarchy[1]'') (Inr ())
       \<in> set (snd (snd (maintain_connections sync_env ''hda1'' (sync_body sync_env ''hda1'')
                           replicated_scene)))
   \<and> (''hda1_ball.matrix'', ''fx_000_INST.inputHierarchy[1]'') \<in> set (wires replicated_scene)
   \<and> ''hda1_ball''
       \<in> set (nodes (fst (snd (maintain_connections sync_env ''hda1''
                                  (sync_body sync_env ''hda1'') replicated_scene))))
   \<and> wires (fst (snd (maintain_connections sync_env ''hda1'' (sync_body sync_env ''hda1'')
                         replicated_scene))) = []"
  by (simp add: maintain_connections_def collect_connections_def disconnect_all_def
        reconnect_all_def sync_body_def sync_env_def sync_list_def sync_unit_def
        replicated_scene_def plug_node_def no_flags_def
        and_then_def attempt_def cmds_list_def cmds_unit_def iterable_def filter_in_def
        ok_def throw_def lift_def or_empty_def)

subsection \<open>Running alike on two hosts\<close>


lemma same_runD:
  "same_run R m1 m2 \<Longrightarrow> R g h \<Longrightarrow>
   fst (m1 g) = fst (m2 h) \<and> R (fst (snd (m1 g))) (fst (snd (m2 h)))
   \<and> snd (snd (m1 g)) = snd (snd (m2 h))"
  by (simp add: same_run_def)

lemma same_run_ok: "same_run R (ok x) (ok x)"
  by (simp add: same_run_def ok_def)

lemma same_run_throw: "same_run R (throw e) (throw e)"
  by (simp add: same_run_def throw_def)

lemma same_run_lift: "same_run R (lift r) (lift r)"
  by (simp add: same_run_def lift_def)

lemma same_runE:
  assumes "same_run R m1 m2" and "R g h"
  obtains r g1 h1 t where "m1 g = (r, g1, t)" "m2 h = (r, h1, t)" "R g1 h1"
proof -
  obtain r1 g1 t1 where m1: "m1 g = (r1, g1, t1)" by (cases "m1 g")
  obtain r2 h1 t2 where m2: "m2 h = (r2, h1, t2)" by (cases "m2 h")
  from same_runD [OF assms] m1 m2 have "r1 = r2" "R g1 h1" "t1 = t2" by simp_all
  with m1 m2 that show ?thesis by blast
qed

lemma same_runI:
  assumes "\<And>g h. R g h \<Longrightarrow> \<exists>r g1 h1 t. m1 g = (r, g1, t) \<and> m2 h = (r, h1, t) \<and> R g1 h1"
  shows "same_run R m1 m2"
  unfolding same_run_def
proof (intro allI impI)
  fix g h
  assume "R g h"
  from assms [OF this] obtain r g1 h1 t where
    "m1 g = (r, g1, t)" "m2 h = (r, h1, t)" "R g1 h1" by blast
  then show "fst (m1 g) = fst (m2 h) \<and> R (fst (snd (m1 g))) (fst (snd (m2 h)))
      \<and> snd (snd (m1 g)) = snd (snd (m2 h))"
    by simp
qed

lemma same_run_and_then:
  assumes "same_run R m1 m2" and "\<And>x. same_run R (f1 x) (f2 x)"
  shows "same_run R (and_then m1 f1) (and_then m2 f2)"
proof (rule same_runI)
  fix g h
  assume gh: "R g h"
  obtain r g1 h1 t where
    m: "m1 g = (r, g1, t)" "m2 h = (r, h1, t)" and R1: "R g1 h1"
    by (rule same_runE [OF assms(1) gh])
  show "\<exists>r g1 h1 t. and_then m1 f1 g = (r, g1, t) \<and> and_then m2 f2 h = (r, h1, t) \<and> R g1 h1"
  proof (cases r)
    case (Inl e)
    with m R1 show ?thesis by (simp add: and_then_def)
  next
    case (Inr x)
    obtain r' g2 h2 t' where
      "f1 x g1 = (r', g2, t')" "f2 x h1 = (r', h2, t')" "R g2 h2"
      by (rule same_runE [OF assms(2) R1])
    with m Inr show ?thesis by (simp add: and_then_def)
  qed
qed

lemma same_run_attempt:
  assumes "same_run R m1 m2"
  shows "same_run R (attempt m1) (attempt m2)"
proof (rule same_runI)
  fix g h
  assume gh: "R g h"
  obtain r g1 h1 t where
    "m1 g = (r, g1, t)" "m2 h = (r, h1, t)" "R g1 h1"
    by (rule same_runE [OF assms gh])
  then show "\<exists>r g1 h1 t. attempt m1 g = (r, g1, t) \<and> attempt m2 h = (r, h1, t) \<and> R g1 h1"
    by (simp add: attempt_def)
qed

lemma same_run_except_runtime_pass:
  assumes "same_run R m1 m2"
  shows "same_run R (except_runtime_pass m1) (except_runtime_pass m2)"
proof (rule same_runI)
  fix g h
  assume gh: "R g h"
  obtain r g1 h1 t where
    "m1 g = (r, g1, t)" "m2 h = (r, h1, t)" "R g1 h1"
    by (rule same_runE [OF assms gh])
  then show "\<exists>r g1 h1 t. except_runtime_pass m1 g = (r, g1, t)
      \<and> except_runtime_pass m2 h = (r, h1, t) \<and> R g1 h1"
    by (auto simp: except_runtime_pass_def split: sum.splits error.splits)
qed

lemma same_run_cmds_list:
  assumes "same_answers R E1 E2"
  shows "same_run R (cmds_list E1 c) (cmds_list E2 c)"
proof (rule same_runI)
  fix g h
  assume "R g h"
  with assms have "fst (list_call E1 c g) = fst (list_call E2 c h)"
    "R (snd (list_call E1 c g)) (snd (list_call E2 c h))"
    by (simp_all add: same_answers_def)
  then show "\<exists>r g1 h1 t. cmds_list E1 c g = (r, g1, t) \<and> cmds_list E2 c h = (r, h1, t) \<and> R g1 h1"
    by (cases "list_call E1 c g"; cases "list_call E2 c h") (simp add: cmds_list_def)
qed

lemma same_run_cmds_str:
  assumes "same_answers R E1 E2"
  shows "same_run R (cmds_str E1 c) (cmds_str E2 c)"
proof (rule same_runI)
  fix g h
  assume "R g h"
  with assms have "fst (str_call E1 c g) = fst (str_call E2 c h)"
    "R (snd (str_call E1 c g)) (snd (str_call E2 c h))"
    by (simp_all add: same_answers_def)
  then show "\<exists>r g1 h1 t. cmds_str E1 c g = (r, g1, t) \<and> cmds_str E2 c h = (r, h1, t) \<and> R g1 h1"
    by (cases "str_call E1 c g"; cases "str_call E2 c h") (simp add: cmds_str_def)
qed

lemma same_run_cmds_unit:
  assumes "same_answers R E1 E2"
  shows "same_run R (cmds_unit E1 c) (cmds_unit E2 c)"
proof (rule same_runI)
  fix g h
  assume "R g h"
  with assms have "fst (unit_call E1 c g) = fst (unit_call E2 c h)"
    "R (snd (unit_call E1 c g)) (snd (unit_call E2 c h))"
    by (simp_all add: same_answers_def)
  then show "\<exists>r g1 h1 t. cmds_unit E1 c g = (r, g1, t) \<and> cmds_unit E2 c h = (r, h1, t) \<and> R g1 h1"
    by (cases "unit_call E1 c g"; cases "unit_call E2 c h") (simp add: cmds_unit_def)
qed

lemma same_run_for_each:
  "(\<And>x. same_run R (f1 x) (f2 x)) \<Longrightarrow> same_run R (for_each f1 xs) (for_each f2 xs)"
  by (induction xs) (auto intro!: same_run_ok same_run_and_then)

lemma same_run_iterable: "same_run R (iterable v) (iterable v)"
  by (auto simp: iterable_def same_run_ok same_run_throw split: option.splits)

lemma same_run_filter_in: "same_run R (filter_in keep xs ys) (filter_in keep xs ys)"
  by (auto simp: filter_in_def same_run_ok same_run_throw split: option.splits list.splits)

lemma same_run_if:
  "(c \<Longrightarrow> same_run R a1 a2) \<Longrightarrow> (\<not> c \<Longrightarrow> same_run R b1 b2) \<Longrightarrow>
   same_run R (if c then a1 else b1) (if c then a2 else b2)"
  by simp

lemma same_run_case_option:
  "(v = None \<Longrightarrow> same_run R a1 a2) \<Longrightarrow> (\<And>x. v = Some x \<Longrightarrow> same_run R (b1 x) (b2 x)) \<Longrightarrow>
   same_run R (case v of None \<Rightarrow> a1 | Some x \<Rightarrow> b1 x) (case v of None \<Rightarrow> a2 | Some x \<Rightarrow> b2 x)"
  by (cases v) simp_all

lemma same_run_case_list:
  "(v = [] \<Longrightarrow> same_run R a1 a2) \<Longrightarrow> (\<And>x xs. v = x # xs \<Longrightarrow> same_run R (b1 x xs) (b2 x xs)) \<Longrightarrow>
   same_run R (case v of [] \<Rightarrow> a1 | x # xs \<Rightarrow> b1 x xs) (case v of [] \<Rightarrow> a2 | x # xs \<Rightarrow> b2 x xs)"
  by (cases v) simp_all

lemma same_run_case_sum:
  "(\<And>e. v = Inl e \<Longrightarrow> same_run R (a1 e) (a2 e)) \<Longrightarrow>
   (\<And>x. v = Inr x \<Longrightarrow> same_run R (b1 x) (b2 x)) \<Longrightarrow>
   same_run R (case v of Inl e \<Rightarrow> a1 e | Inr x \<Rightarrow> b1 x) (case v of Inl e \<Rightarrow> a2 e | Inr x \<Rightarrow> b2 x)"
  by (cases v) simp_all

lemma same_run_case_prod:
  "(\<And>x y. v = (x, y) \<Longrightarrow> same_run R (a1 x y) (a2 x y)) \<Longrightarrow>
   same_run R (case v of (x, y) \<Rightarrow> a1 x y) (case v of (x, y) \<Rightarrow> a2 x y)"
  by (cases v) simp_all

lemmas same_run_intros =
  same_run_ok same_run_throw same_run_lift same_run_and_then same_run_attempt
  same_run_except_runtime_pass same_run_cmds_list same_run_cmds_str same_run_cmds_unit
  same_run_for_each same_run_iterable same_run_filter_in same_run_if same_run_case_option
  same_run_case_list same_run_case_sum same_run_case_prod


lemma same_answers_iter_set: "same_answers R E1 E2 \<Longrightarrow> iter_set E2 = iter_set E1"
  by (simp add: same_answers_def)

lemma same_run_get_houdini_assets:
  "same_answers R E1 E2 \<Longrightarrow>
   same_run R (get_houdini_assets E1 selected) (get_houdini_assets E2 selected)"
  unfolding get_houdini_assets_def
  by (intro same_run_intros; assumption)

lemma same_run_get_particle_system:
  "same_answers R E1 E2 \<Longrightarrow> same_run R (get_particle_system E1 a) (get_particle_system E2 a)"
  unfolding get_particle_system_def Let_def
  by (simp only: same_answers_iter_set) (intro same_run_intros; assumption)

lemma same_run_get_particle_attributes:
  "same_answers R E1 E2 \<Longrightarrow>
   same_run R (get_particle_attributes E1 a) (get_particle_attributes E2 a)"
  unfolding get_particle_attributes_def
  by (intro same_run_intros; assumption)

lemma same_run_get_instancers:
  "same_answers R E1 E2 \<Longrightarrow> same_run R (get_instancers E1 a) (get_instancers E2 a)"
  unfolding get_instancers_def
  by (intro same_run_intros; assumption)

lemma same_run_get_input_hierarchy:
  "same_answers R E1 E2 \<Longrightarrow> same_run R (get_input_hierarchy E1 a) (get_input_hierarchy E2 a)"
  unfolding get_input_hierarchy_def
  by (intro same_run_intros; assumption)

lemma same_run_get_shape_transforms:
  "same_answers R E1 E2 \<Longrightarrow> same_run R (get_shape_transforms E1 a) (get_shape_transforms E2 a)"
  unfolding get_shape_transforms_def
  by (intro same_run_intros; assumption)

lemma same_run_input_hierarchies:
  "same_answers R E1 E2 \<Longrightarrow> same_run R (input_hierarchies E1 insts) (input_hierarchies E2 insts)"
proof (induction insts)
  case Nil
  show ?case by (simp add: same_run_ok)
next
  case (Cons i insts)
  show ?case
    unfolding input_hierarchies.simps
    by (intro same_run_intros same_run_get_input_hierarchy Cons.IH Cons.prems)
qed

lemma same_run_map_houdini_asset:
  assumes "same_answers R E1 E2"
  shows "same_run R (map_houdini_asset E1 asset) (map_houdini_asset E2 asset)"
  unfolding map_houdini_asset_def same_answers_iter_set [OF assms]
  by (intro same_run_intros same_run_get_instancers same_run_input_hierarchies
        same_run_get_particle_system same_run_get_particle_attributes assms)



lemma same_run_particle_instancer:
  "same_answers R E1 E2 \<Longrightarrow>
   same_run R (particle_instancer E1 sys n objs kw) (particle_instancer E2 sys n objs kw)"
  unfolding particle_instancer_def
  by (intro same_run_intros; assumption)

lemma same_run_wire_entry:
  assumes "same_answers R E1 E2"
  shows "same_run R (wire_entry E1 name nucleus grp kw i m plug new)
           (wire_entry E2 name nucleus grp kw i m plug new)"
  unfolding wire_entry_def
  by (intro same_run_intros same_run_particle_instancer assms)

lemma same_run_duplicate_entry:
  assumes "same_answers R E1 E2"
  shows "same_run R (duplicate_entry E1 name nucleus grp kw i m psys plug)
           (duplicate_entry E2 name nucleus grp kw i m psys plug)"
  unfolding duplicate_entry_def
  by (intro same_run_intros same_run_wire_entry assms)

lemma same_run_replicate_entry:
  assumes "same_answers R E1 E2"
  shows "same_run R (replicate_entry E1 name nucleus grp kw i item)
           (replicate_entry E2 name nucleus grp kw i item)"
  unfolding replicate_entry_def
  by (intro same_run_intros same_run_duplicate_entry assms)

lemma same_run_replicate_loop:
  assumes "same_answers R E1 E2"
  shows "same_run R (replicate_loop E1 name nucleus grp kw i items)
           (replicate_loop E2 name nucleus grp kw i items)"
proof (induction items arbitrary: i)
  case Nil
  show ?case by (simp add: same_run_ok)
next
  case (Cons item items)
  show ?case
    unfolding replicate_loop.simps
    by (intro same_run_intros same_run_replicate_entry Cons.IH assms)
qed

lemma same_run_choose_nucleus:
  "same_answers R E1 E2 \<Longrightarrow> same_run R (choose_nucleus E1 nuclea) (choose_nucleus E2 nuclea)"
  unfolding choose_nucleus_def
  by (intro same_run_intros; assumption)

lemma same_run_replicate_asset:
  assumes "same_answers R E1 E2"
  shows "same_run R (replicate_asset E1 name am attr) (replicate_asset E2 name am attr)"
  unfolding replicate_asset_def replicate_with_nucleus_def
  by (intro same_run_intros same_run_choose_nucleus same_run_replicate_loop assms)

lemma same_run_collect_instancers:
  assumes "same_answers R E1 E2"
  shows "same_run R (collect_instancers E1 insts) (collect_instancers E2 insts)"
proof (induction insts)
  case Nil
  show ?case by (simp add: same_run_ok)
next
  case (Cons i insts)
  show ?case
    unfolding collect_instancers.simps
    by (intro same_run_intros Cons.IH assms)
qed

lemma same_run_collect_nparticles:
  assumes "same_answers R E1 E2"
  shows "same_run R (collect_nparticles E1 nps) (collect_nparticles E2 nps)"
proof (induction nps)
  case Nil
  show ?case by (simp add: same_run_ok)
next
  case (Cons n nps)
  show ?case
    unfolding collect_nparticles.simps
    by (intro same_run_intros same_run_collect_instancers Cons.IH assms)
qed

lemma same_run_collect_connections:
  assumes "same_answers R E1 E2"
  shows "same_run R (collect_connections E1 c d) (collect_connections E2 c d)"
  unfolding collect_connections_def
  by (intro same_run_intros same_run_collect_nparticles assms)

lemma same_run_maintain_connections:
  assumes "same_answers R E1 E2" and "same_run R body1 body2"
  shows "same_run R (maintain_connections E1 asset body1) (maintain_connections E2 asset body2)"
  unfolding maintain_connections_def disconnect_all_def reconnect_all_def
  by (intro same_run_intros same_run_collect_connections assms)

lemma same_run_connect_new_shapes:
  assumes "same_answers R E1 E2"
  shows "same_run R (connect_new_shapes E1 inst idx shps) (connect_new_shapes E2 inst idx shps)"
proof (induction shps arbitrary: idx)
  case Nil
  show ?case by (simp add: same_run_ok)
next
  case (Cons s shps)
  show ?case
    unfolding connect_new_shapes.simps
    by (intro same_run_intros Cons.IH assms)
qed

lemma same_run_update_asset:
  assumes "same_answers R E1 E2"
  shows "same_run R (update_asset E1 asset) (update_asset E2 asset)"
  unfolding update_asset_def Let_def same_answers_iter_set [OF assms]
  by (intro same_run_intros same_run_get_shape_transforms same_run_maintain_connections
        same_run_connect_new_shapes assms)


text \<open>
  C6. Each library operation (\<open>map_houdini_asset\<close>, \<open>replicate\<close>, \<open>update_asset\<close>) depends on
  the host only through the answers it gets. Take two hosts, of any kind, whose scenes are
  related by \<open>R\<close> and that answer alike: from related scenes every call gets the same answer
  and leaves related scenes, and sets are iterated in the same order. Then, given the same
  inputs, each operation ends on both with the same outcome (the same return value, or the
  same exception) and the same transcript, hence the same sequence of scene edits, and leaves
  related scenes. Two runs on one host from one scene are the case where \<open>R\<close> is equality.
\<close>

theorem operations_deterministic:
  assumes "same_answers R E1 E2"
  shows "same_run R (map_houdini_asset E1 asset) (map_houdini_asset E2 asset)
     \<and> same_run R (replicate_asset E1 name asset_mapping attribute_mapping)
         (replicate_asset E2 name asset_mapping attribute_mapping)
     \<and> same_run R (update_asset E1 asset) (update_asset E2 asset)"
  using same_run_map_houdini_asset [OF assms] same_run_replicate_asset [OF assms]
    same_run_update_asset [OF assms]
  by (intro conjI)

theorem operations_deterministic_witness:
  "same_answers (\<lambda>_ _. True) demo counting_demo
   \<and> fst (replicate_asset counting_demo ''fx'' demo_mapping None 0) = Inr True
   \<and> snd (snd (replicate_asset counting_demo ''fx'' demo_mapping None 0)) = demo_replicate_transcript
   \<and> fst (map_houdini_asset counting_demo ''hda1'' 0) = fst (map_houdini_asset demo ''hda1'' ())
   \<and> snd (snd (map_houdini_asset counting_demo ''hda1'' 0)) = snd (snd (map_houdini_asset demo ''hda1'' ()))
   \<and> fst (update_asset counting_demo ''hda1'' 0) = fst (update_asset demo ''hda1'' ())
   \<and> snd (snd (update_asset counting_demo ''hda1'' 0)) = snd (snd (update_asset demo ''hda1'' ()))"
proof -
  have alike: "same_answers (\<lambda>_ _. True) demo counting_demo"
    by (simp add: same_answers_def demo_def counting_demo_def)
  note det = operations_deterministic [OF alike, of "''hda1''" "''fx''" demo_mapping None]
  have related: "(\<lambda>(_::unit) (_::nat). True) () 0"
    by simp
  from det have m: "same_run (\<lambda>_ _. True) (map_houdini_asset demo ''hda1'')
      (map_houdini_asset counting_demo ''hda1'')"
    by (rule conjunct1)
  from det have r: "same_run (\<lambda>_ _. True) (replicate_asset demo ''fx'' demo_mapping None)
      (replicate_asset counting_demo ''fx'' demo_mapping None)"
    by (rule conjunct1 [OF conjunct2])
  from det have u: "same_run (\<lambda>_ _. True) (update_asset demo ''hda1'')
      (update_asset counting_demo ''hda1'')"
    by (rule conjunct2 [OF conjunct2])
  have m': "fst (map_houdini_asset counting_demo ''hda1'' 0) = fst (map_houdini_asset demo ''hda1'' ())"
      "snd (snd (map_houdini_asset counting_demo ''hda1'' 0)) = snd (snd (map_houdini_asset demo ''hda1'' ()))"
    using same_runD [OF m related] by simp_all
  have u': "fst (update_asset counting_demo ''hda1'' 0) = fst (update_asset demo ''hda1'' ())"
      "snd (snd (update_asset counting_demo ''hda1'' 0)) = snd (snd (update_asset demo ''hda1'' ()))"
    using same_runD [OF u related] by simp_all
  have r': "fst (replicate_asset counting_demo ''fx'' demo_mapping None 0) = Inr True"
      "snd (snd (replicate_asset counting_demo ''fx'' demo_mapping None 0)) = demo_replicate_transcript"
    using same_runD [OF r related] demo_replicate_run by simp_all
  from alike r' m' u' show ?thesis
    by (intro conjI)
qed

end
